theory Spec2Isabelle
  imports Complex_Main "HOL-Library.Word"
begin

section \<open>Tokens, kinds and values\<close>

text \<open>
  \<^verbatim>\<open>token.Token\<close> is an integer type, and the sources compare tokens by order
  (\<^verbatim>\<open>token.ADD < op && op < token.LAND\<close>, \<^verbatim>\<open>token.EQL <= op && op <= token.GEQ\<close>,
  \<^verbatim>\<open>token.ADD < op && op < token.REM\<close>) and compute \<^verbatim>\<open>as.Op-5\<close> to turn a compound
  assignment into its operator. The package that declares the constants
  (\<^verbatim>\<open>pkg/cook/token\<close>) is not among the sources; the constants below are the ones the
  modelled functions name, numbered in an order that satisfies each of these uses.
\<close>

type_synonym token = nat

abbreviation ILLEGAL :: token where "ILLEGAL \<equiv> 100"
abbreviation EOF :: token where "EOF \<equiv> 101"
abbreviation LF :: token where "LF \<equiv> 102"
abbreviation IDENT :: token where "IDENT \<equiv> 103"
abbreviation INTEGER :: token where "INTEGER \<equiv> 104"
abbreviation FLOAT :: token where "FLOAT \<equiv> 105"
abbreviation BOOLEAN :: token where "BOOLEAN \<equiv> 106"
abbreviation STRING :: token where "STRING \<equiv> 107"
abbreviation ADD :: token where "ADD \<equiv> 108"
abbreviation SUB :: token where "SUB \<equiv> 109"
abbreviation MUL :: token where "MUL \<equiv> 110"
abbreviation QUO :: token where "QUO \<equiv> 111"
abbreviation REM :: token where "REM \<equiv> 112"
abbreviation ADD_ASSIGN :: token where "ADD_ASSIGN \<equiv> 113"
abbreviation SUB_ASSIGN :: token where "SUB_ASSIGN \<equiv> 114"
abbreviation MUL_ASSIGN :: token where "MUL_ASSIGN \<equiv> 115"
abbreviation QUO_ASSIGN :: token where "QUO_ASSIGN \<equiv> 116"
abbreviation REM_ASSIGN :: token where "REM_ASSIGN \<equiv> 117"
abbreviation AND :: token where "AND \<equiv> 118"
abbreviation OR :: token where "OR \<equiv> 119"
abbreviation XOR :: token where "XOR \<equiv> 120"
abbreviation SHL :: token where "SHL \<equiv> 121"
abbreviation SHR :: token where "SHR \<equiv> 122"
abbreviation LAND :: token where "LAND \<equiv> 123"
abbreviation LOR :: token where "LOR \<equiv> 124"
abbreviation INC :: token where "INC \<equiv> 125"
abbreviation DEC :: token where "DEC \<equiv> 126"
abbreviation EQL :: token where "EQL \<equiv> 127"
abbreviation LSS :: token where "LSS \<equiv> 128"
abbreviation GTR :: token where "GTR \<equiv> 129"
abbreviation NEQ :: token where "NEQ \<equiv> 130"
abbreviation LEQ :: token where "LEQ \<equiv> 131"
abbreviation GEQ :: token where "GEQ \<equiv> 132"
abbreviation ASSIGN :: token where "ASSIGN \<equiv> 133"
abbreviation NOT :: token where "NOT \<equiv> 134"
abbreviation FD :: token where "FD \<equiv> 135"
abbreviation QES :: token where "QES \<equiv> 136"
abbreviation DQS :: token where "DQS \<equiv> 137"
abbreviation IS :: token where "IS \<equiv> 138"
abbreviation EXISTS :: token where "EXISTS \<equiv> 139"
abbreviation LPAREN :: token where "LPAREN \<equiv> 140"
abbreviation RPAREN :: token where "RPAREN \<equiv> 141"
abbreviation LBRACK :: token where "LBRACK \<equiv> 142"
abbreviation TINTEGER :: token where "TINTEGER \<equiv> 143"
abbreviation TFLOAT :: token where "TFLOAT \<equiv> 144"
abbreviation TSTRING :: token where "TSTRING \<equiv> 145"
abbreviation TBOOLEAN :: token where "TBOOLEAN \<equiv> 146"
abbreviation BREAK :: token where "BREAK \<equiv> 147"
abbreviation CONTINUE :: token where "CONTINUE \<equiv> 148"
abbreviation COLON :: token where "COLON \<equiv> 149"

text \<open>\<^verbatim>\<open>reflect.Kind\<close>, restricted to the kinds the evaluator produces.\<close>

datatype kind = KInvalid | KBool | KInt64 | KFloat64 | KString | KSlice | KMap

text \<open>
  A slice \<^verbatim>\<open>[]any\<close>, as Go has it: the address of its backing array, its length and its
  capacity. The backing arrays are in the store of the context (\<open>heap\<close> below), and two
  slices may have the same one.
\<close>

datatype slice = Slice (sarr: nat) (slen: nat) (scap: nat)

text \<open>
  A dynamically typed value: the pair \<^verbatim>\<open>(any, reflect.Kind)\<close> every \<^verbatim>\<open>Evaluate\<close>
  returns, as one tagged value whose kind is \<open>kindOf\<close>. \<open>VNil\<close> is \<^verbatim>\<open>(nil, reflect.Invalid)\<close>.
  \<open>'f\<close> is the type of \<^verbatim>\<open>float64\<close> values. A map is given by its entries: no modelled
  operation writes to one.
\<close>

datatype 'f val =
    VNil
  | VInt "64 word"
  | VFloat 'f
  | VBool bool
  | VString string
  | VArray slice
  | VMap "('f val \<times> 'f val) list"

fun kindOf :: "'f val \<Rightarrow> kind" where
  "kindOf VNil = KInvalid"
| "kindOf (VInt i) = KInt64"
| "kindOf (VFloat f) = KFloat64"
| "kindOf (VBool b) = KBool"
| "kindOf (VString s) = KString"
| "kindOf (VArray s) = KSlice"
| "kindOf (VMap m) = KMap"

text \<open>Type assertions \<^verbatim>\<open>v.(int64)\<close>, \<^verbatim>\<open>v.(float64)\<close>, ... on a value of the asserted kind.\<close>

fun asInt :: "'f val \<Rightarrow> 64 word" where
  "asInt (VInt i) = i" | "asInt _ = 0"

fun asString :: "'f val \<Rightarrow> string" where
  "asString (VString s) = s" | "asString _ = []"

fun asBool :: "'f val \<Rightarrow> bool" where
  "asBool (VBool b) = b" | "asBool _ = False"

fun asSlice :: "'f val \<Rightarrow> slice" where
  "asSlice (VArray s) = s" | "asSlice _ = Slice 0 0 0"

text \<open>
  The operations of \<^verbatim>\<open>float64\<close> and of \<^verbatim>\<open>strconv\<close> on it that the evaluator uses, the
  process environment (\<^verbatim>\<open>os.Getenv\<close>, the empty text for an unset name), and the capacity
  \<open>growslice c m\<close> of the backing array that \<^verbatim>\<open>append\<close> allocates when a slice of
  capacity \<open>c\<close> has to hold \<open>m\<close> elements (\<^verbatim>\<open>runtime.growslice\<close>). They belong to the Go
  runtime and the operating system, not to the repository, and are parameters of the
  model.
\<close>

record 'f runtime =
  fadd :: "'f \<Rightarrow> 'f \<Rightarrow> 'f"
  fsub :: "'f \<Rightarrow> 'f \<Rightarrow> 'f"
  fmul :: "'f \<Rightarrow> 'f \<Rightarrow> 'f"
  fquo :: "'f \<Rightarrow> 'f \<Rightarrow> 'f"
  fneg :: "'f \<Rightarrow> 'f"
  feq :: "'f \<Rightarrow> 'f \<Rightarrow> bool"
  flt :: "'f \<Rightarrow> 'f \<Rightarrow> bool"
  fle :: "'f \<Rightarrow> 'f \<Rightarrow> bool"
  ofInt64 :: "64 word \<Rightarrow> 'f"
  toInt64 :: "'f \<Rightarrow> 64 word"
  ParseFloat :: "string \<Rightarrow> 'f option"
  FormatFloat :: "'f \<Rightarrow> string"
  Getenv :: "string \<Rightarrow> string"
  growslice :: "nat \<Rightarrow> nat \<Rightarrow> nat"

fun asFloat :: "'f runtime \<Rightarrow> 'f val \<Rightarrow> 'f" where
  "asFloat fo (VFloat f) = f" | "asFloat fo _ = ofInt64 fo 0"

section \<open>Errors and results\<close>

datatype error =
    ErrSyntax                 \<comment> \<open>\<^verbatim>\<open>strconv\<close>: invalid syntax\<close>
  | ErrRange                  \<comment> \<open>\<^verbatim>\<open>strconv\<close>: value out of range\<close>
  | ErrInvalidLiteral
  | ErrConvert kind           \<comment> \<open>value cannot cast/convert to float, integer or string\<close>
  | ErrFloatCut               \<comment> \<open>value will be cut when cast to integer\<close>
  | ErrOperator token         \<comment> \<open>operator is not supported for the two values\<close>
  | ErrUnary token
  | ErrIncDec token
  | ErrCast kind              \<comment> \<open>cannot cast the value to the type\<close>
  | ErrNotBool
  | ErrInterval
  | ErrStep
  | ErrAssignNil string
  | ErrNoVariable string
  | ErrLoopIndexKind
  | ErrNoLoop
  | ErrNoLabel string
  | ErrNoTargetAll
  | ErrStack "error list"     \<comment> \<open>\<^verbatim>\<open>CookError\<close>: a stack of errors\<close>
  | ErrMsg string

text \<open>
  The outcome of a call: a value, a returned \<^verbatim>\<open>error\<close>, or a Go panic (which no
  \<^verbatim>\<open>err != nil\<close> check intercepts).
\<close>

datatype 'a res = Ok 'a | Err error | Panic string

section \<open>\<^verbatim>\<open>strconv\<close> on integers and booleans\<close>

definition isDigit :: "char \<Rightarrow> bool" where
  "isDigit c = (48 \<le> (of_char c :: nat) \<and> (of_char c :: nat) \<le> 57)"

definition digitVal :: "char \<Rightarrow> nat" where
  "digitVal c = (of_char c :: nat) - 48"

text \<open>
  The loop of \<^verbatim>\<open>strconv.ParseUint(s, 10, 64)\<close>: a character that is no decimal digit is a
  syntax error, and a value beyond \<open>2^64 - 1\<close> a range error, reported at the digit where
  it happens.
\<close>

fun parseUintLoop :: "nat \<Rightarrow> string \<Rightarrow> error + nat" where
  "parseUintLoop n [] = Inr n"
| "parseUintLoop n (c # cs) =
     (if \<not> isDigit c then Inl ErrSyntax
      else if n \<ge> (2 ^ 64 - 1) div 10 + 1 then Inl ErrRange
      else if n * 10 + digitVal c > 2 ^ 64 - 1 then Inl ErrRange
      else parseUintLoop (n * 10 + digitVal c) cs)"

definition ParseUint :: "string \<Rightarrow> error + nat" where
  "ParseUint s = (if s = [] then Inl ErrSyntax else parseUintLoop 0 s)"

text \<open>\<^verbatim>\<open>strconv.ParseInt(s, 10, 64)\<close>.\<close>

definition ParseInt :: "string \<Rightarrow> error + 64 word" where
  "ParseInt s =
     (if s = [] then Inl ErrSyntax
      else
        let neg = (hd s = CHR ''-'');
            s1 = (if hd s = CHR ''+'' \<or> hd s = CHR ''-'' then tl s else s)
        in case ParseUint s1 of
             Inl e \<Rightarrow> Inl e
           | Inr un \<Rightarrow>
               if \<not> neg \<and> un \<ge> 2 ^ 63 then Inl ErrRange
               else if neg \<and> un > 2 ^ 63 then Inl ErrRange
               else Inr (if neg then - (word_of_nat un) else word_of_nat un))"

fun showNat :: "nat \<Rightarrow> string" where
  "showNat n =
     (if n < 10 then [char_of (48 + n)]
      else showNat (n div 10) @ [char_of (48 + n mod 10)])"

declare showNat.simps [simp del]

text \<open>\<^verbatim>\<open>strconv.FormatInt(i, 10)\<close>: the decimal text of the signed value.\<close>

definition FormatInt :: "64 word \<Rightarrow> string" where
  "FormatInt i =
     (if sint i < 0 then CHR ''-'' # showNat (nat (- sint i)) else showNat (nat (sint i)))"

definition FormatBool :: "bool \<Rightarrow> string" where
  "FormatBool b = (if b then ''true'' else ''false'')"

definition ParseBool :: "string \<Rightarrow> error + bool" where
  "ParseBool s =
     (if s \<in> set [''1'', ''t'', ''T'', ''TRUE'', ''true'', ''True''] then Inr True
      else if s \<in> set [''0'', ''f'', ''F'', ''FALSE'', ''false'', ''False''] then Inr False
      else Inl ErrSyntax)"

section \<open>Conversions, arithmetic and comparison\<close>

text \<open>\<^verbatim>\<open>convertToNum\<close>: an integer if the text parses as one, else a float.\<close>

definition convertToNum :: "'f runtime \<Rightarrow> string \<Rightarrow> error + 'f val" where
  "convertToNum fo s =
     (case ParseInt s of
        Inr iv \<Rightarrow> Inr (VInt iv)
      | Inl _ \<Rightarrow> (case ParseFloat fo s of Some fv \<Rightarrow> Inr (VFloat fv) | None \<Rightarrow> Inl ErrSyntax))"

fun convertToFloat :: "'f runtime \<Rightarrow> 'f val \<Rightarrow> error + 'f" where
  "convertToFloat fo (VInt i) = Inr (ofInt64 fo i)"
| "convertToFloat fo (VFloat f) = Inr f"
| "convertToFloat fo (VString s) =
     (case ParseFloat fo s of Some f \<Rightarrow> Inr f | None \<Rightarrow> Inl ErrSyntax)"
| "convertToFloat fo v = Inl (ErrConvert KFloat64)"

fun convertToInt :: "'f val \<Rightarrow> error + 64 word" where
  "convertToInt (VInt i) = Inr i"
| "convertToInt (VFloat f) = Inl ErrFloatCut"
| "convertToInt (VString s) = ParseInt s"
| "convertToInt v = Inl (ErrConvert KInt64)"

text \<open>
  \<^verbatim>\<open>convertToString\<close>. The \<^verbatim>\<open>[]byte\<close> case of its default branch concerns results of
  built-in functions, which are not values of \<open>val\<close>.
\<close>

fun convertToString :: "'f runtime \<Rightarrow> 'f val \<Rightarrow> error + string" where
  "convertToString fo (VInt i) = Inr (FormatInt i)"
| "convertToString fo (VFloat f) = Inr (FormatFloat fo f)"
| "convertToString fo (VBool b) = Inr (FormatBool b)"
| "convertToString fo (VString s) = Inr s"
| "convertToString fo v = Inl (ErrConvert KString)"

text \<open>Go's integer division and remainder truncate towards zero and wrap around.\<close>

definition truncDiv :: "int \<Rightarrow> int \<Rightarrow> int" where
  "truncDiv a b = sgn a * sgn b * (\<bar>a\<bar> div \<bar>b\<bar>)"

definition quoInt64 :: "64 word \<Rightarrow> 64 word \<Rightarrow> 64 word" where
  "quoInt64 a b = word_of_int (truncDiv (sint a) (sint b))"

definition remInt64 :: "64 word \<Rightarrow> 64 word \<Rightarrow> 64 word" where
  "remInt64 a b = a - b * quoInt64 a b"

text \<open>Label \<^verbatim>\<open>numFloat\<close> of \<^verbatim>\<open>numOperator\<close>.\<close>

definition numFloat :: "'f runtime \<Rightarrow> token \<Rightarrow> 'f val \<Rightarrow> 'f val \<Rightarrow> 'f val res" where
  "numFloat rt op vl vr =
     (case convertToFloat rt vl of
        Inl e \<Rightarrow> Err e
      | Inr fa \<Rightarrow> (case convertToFloat rt vr of
                     Inl e \<Rightarrow> Err e
                   | Inr fb \<Rightarrow>
                       if op = SUB then Ok (VFloat (fsub rt fa fb))
                       else if op = MUL then Ok (VFloat (fmul rt fa fb))
                       else if op = QUO then Ok (VFloat (fquo rt fa fb))
                       else Panic ''illegal state operation''))"

text \<open>
  Label \<^verbatim>\<open>numInt\<close> of \<^verbatim>\<open>numOperator\<close>. Division or remainder by zero and a negative
  shift count are run-time panics of Go.
\<close>

definition numInt :: "token \<Rightarrow> 'f val \<Rightarrow> 'f val \<Rightarrow> 'f val res" where
  "numInt op vl vr =
     (case convertToInt vl of
        Inl e \<Rightarrow> Err e
      | Inr ia \<Rightarrow> (case convertToInt vr of
                     Inl e \<Rightarrow> Err e
                   | Inr ib \<Rightarrow>
                       if op = SUB then Ok (VInt (ia - ib))
                       else if op = MUL then Ok (VInt (ia * ib))
                       else if op = QUO then
                         (if ib = 0 then Panic ''integer divide by zero''
                          else Ok (VInt (quoInt64 ia ib)))
                       else if op = REM then
                         (if ib = 0 then Panic ''integer divide by zero''
                          else Ok (VInt (remInt64 ia ib)))
                       else if op = AND then Ok (VInt (and ia ib))
                       else if op = OR then Ok (VInt (or ia ib))
                       else if op = XOR then Ok (VInt (xor ia ib))
                       else if op = SHL then
                         (if sint ib < 0 then Panic ''negative shift amount''
                          else Ok (VInt (push_bit (unat ib) ia)))
                       else if op = SHR then
                         (if sint ib < 0 then Panic ''negative shift amount''
                          else Ok (VInt (signed_drop_bit (unat ib) ia)))
                       else Panic ''illegal state operation''))"

definition numOperator :: "'f runtime \<Rightarrow> token \<Rightarrow> 'f val \<Rightarrow> 'f val \<Rightarrow> 'f val res" where
  "numOperator rt op vl vr =
     (if kindOf vl = KFloat64 \<or> kindOf vr = KFloat64 then
        (if ADD < op \<and> op < REM then numFloat rt op vl vr else Err (ErrOperator op))
      else if kindOf vl = KInt64 \<or> kindOf vr = KInt64 then
        (if ADD < op \<and> op < LAND then numInt op vl vr else Err (ErrOperator op))
      else Err (ErrOperator op))"

text \<open>
  \<^verbatim>\<open>logicOperator\<close>. Two numbers are compared as \<^verbatim>\<open>float64\<close>, also when both are
  integers; \<^verbatim>\<open>strings.Compare\<close> is the lexicographic order of the bytes.
\<close>

fun stringsCompare :: "string \<Rightarrow> string \<Rightarrow> int" where
  "stringsCompare [] [] = 0"
| "stringsCompare [] (d # ds) = -1"
| "stringsCompare (c # cs) [] = 1"
| "stringsCompare (c # cs) (d # ds) =
     (if (of_char c :: nat) < of_char d then -1
      else if (of_char d :: nat) < of_char c then 1
      else stringsCompare cs ds)"

definition logicOperator :: "'f runtime \<Rightarrow> token \<Rightarrow> 'f val \<Rightarrow> 'f val \<Rightarrow> 'f val res" where
  "logicOperator rt op vl vr =
     (if (kindOf vl = KFloat64 \<or> kindOf vl = KInt64) \<and> (kindOf vr = KFloat64 \<or> kindOf vr = KInt64) then
        (case convertToFloat rt vl of
           Inl e \<Rightarrow> Err e
         | Inr fl \<Rightarrow> (case convertToFloat rt vr of
                        Inl e \<Rightarrow> Err e
                      | Inr fr \<Rightarrow>
                          if op = EQL then Ok (VBool (feq rt fl fr))
                          else if op = LSS then Ok (VBool (flt rt fl fr))
                          else if op = GTR then Ok (VBool (flt rt fr fl))
                          else if op = NEQ then Ok (VBool (\<not> feq rt fl fr))
                          else if op = LEQ then Ok (VBool (fle rt fl fr))
                          else if op = GEQ then Ok (VBool (fle rt fr fl))
                          else Panic ''illegal state operator''))
      else if kindOf vl = kindOf vr then
        (if kindOf vl = KBool then
           (if op = EQL then Ok (VBool (asBool vl = asBool vr))
            else if op = NEQ then Ok (VBool (asBool vl \<noteq> asBool vr))
            else Err (ErrOperator op))
         else if kindOf vl = KString then
           (let r = stringsCompare (asString vl) (asString vr) in
            if op = EQL then Ok (VBool (r = 0))
            else if op = LSS then Ok (VBool (r < 0))
            else if op = GTR then Ok (VBool (r > 0))
            else if op = NEQ then Ok (VBool (r \<noteq> 0))
            else if op = LEQ then Ok (VBool (r \<le> 0))
            else if op = GEQ then Ok (VBool (r \<ge> 0))
            else Err (ErrOperator op))
         else
           (if op = EQL then
              (if kindOf vl = KInvalid then Ok (VBool True)
               else Panic ''comparing uncomparable type'')
            else if op = NEQ then
              (if kindOf vl = KInvalid then Ok (VBool False)
               else Panic ''comparing uncomparable type'')
            else Err (ErrOperator op)))
      else Err (ErrOperator op))"

section \<open>Scopes and the evaluation context\<close>

text \<open>
  \<^verbatim>\<open>xScope\<close>. The \<^verbatim>\<open>parent\<close> pointer is the rest of the scope chain: a chain is the
  list of its scopes, the current one first and the outermost (global) one last. A
  variable (\<^verbatim>\<open>ivar\<close>) is its value, whose kind is \<open>kindOf\<close>; its write-back callback
  (\<^verbatim>\<open>bubble\<close>) is set only by an assignment from an index expression, which the modelled
  statements do not contain.
\<close>

record 'f xScope =
  hasChild :: bool
  returnResult :: "'f val option"
  vars :: "string \<rightharpoonup> 'f val"

text \<open>
  Label \<^verbatim>\<open>tryEnv\<close> of \<^verbatim>\<open>xScope.GetVariable\<close>: the named results are assigned from the
  environment, and then \<^verbatim>\<open>return nil, 0, false\<close> returns other values.
\<close>

definition tryEnv :: "'f runtime \<Rightarrow> string \<Rightarrow> 'f val \<times> bool" where
  "tryEnv rt name =
     (let value = Getenv rt name;
          (kind, fromEnv) = (if value \<noteq> [] then (KString, True) else (KInvalid, False))
      in (VNil, False))"

text \<open>\<^verbatim>\<open>xScope.GetVariable\<close>: the value (with its kind) and \<^verbatim>\<open>fromEnv\<close>.\<close>

fun GetVariable :: "'f runtime \<Rightarrow> 'f xScope list \<Rightarrow> string \<Rightarrow> 'f val \<times> bool" where
  "GetVariable rt [] name = (VNil, False)"
| "GetVariable rt (xs # parent) name =
     (case vars xs name of
        Some iv \<Rightarrow> (iv, False)
      | None \<Rightarrow>
          if parent = [] then tryEnv rt name
          else (let (value, fromEnv) = GetVariable rt parent name
                in if kindOf value \<noteq> KInvalid then (value, fromEnv) else tryEnv rt name))"

text \<open>
  \<^verbatim>\<open>xScope.SetVariable\<close>: the returned flag and the updated chain; a value of no
  permitted kind is a panic.
\<close>

fun SetVariable :: "'f xScope list \<Rightarrow> string \<Rightarrow> 'f val \<Rightarrow> (bool \<times> 'f xScope list) res" where
  "SetVariable [] name v = Panic ''nil scope''"
| "SetVariable (xs # parent) name v =
     (if kindOf v = KInvalid then Panic ''cook internal error: variable has an invalid type''
      else case vars xs name of
        Some iv \<Rightarrow> Ok (True, xs\<lparr>vars := (vars xs)(name \<mapsto> v)\<rparr> # parent)
      | None \<Rightarrow>
          if hasChild xs then
            (if parent = [] then Ok (False, xs # parent)
             else (case SetVariable parent name v of
                     Ok (b, parent') \<Rightarrow> Ok (b, xs # parent')
                   | Err e \<Rightarrow> Err e
                   | Panic p \<Rightarrow> Panic p))
          else if parent = [] then Ok (True, xs\<lparr>vars := (vars xs)(name \<mapsto> v)\<rparr> # parent)
          else (case SetVariable parent name v of
                  Ok (b, parent') \<Rightarrow>
                    if \<not> b then Ok (True, xs\<lparr>vars := (vars xs)(name \<mapsto> v)\<rparr> # parent')
                    else Ok (True, xs # parent')
                | Err e \<Rightarrow> Err e
                | Panic p \<Rightarrow> Panic p))"

text \<open>
  \<^verbatim>\<open>xContext\<close>: the current scope (with its chain of parents) and the loop stack with
  the pending break and continue indexes (\<open>-1\<close> for none). The model adds to it the
  store \<open>heap\<close>: the backing arrays of the \<^verbatim>\<open>[]any\<close> slices allocated so far, the address
  of an array being its index in the list. It is Go's memory, which every function that
  is given the context can read and write.
\<close>

record 'f xContext =
  scope :: "'f xScope list"
  loopsLabel :: "string list"
  continueAt :: int
  breakAt :: int
  loops :: "int list"
  heap :: "'f val list list"

definition newScope :: "'f xScope" where
  "newScope = \<lparr>hasChild = False, returnResult = None, vars = Map.empty\<rparr>"

definition renewContext :: "'f xContext" where
  "renewContext =
     \<lparr>scope = [newScope], loopsLabel = [], continueAt = -1, breakAt = -1, loops = [], heap = []\<rparr>"

definition ctxGetVariable :: "'f runtime \<Rightarrow> 'f xContext \<Rightarrow> string \<Rightarrow> 'f val \<times> bool" where
  "ctxGetVariable rt xc name = GetVariable rt (scope xc) name"

definition ctxSetVariable :: "'f xContext \<Rightarrow> string \<Rightarrow> 'f val \<Rightarrow> 'f xContext res" where
  "ctxSetVariable xc name v =
     (case SetVariable (scope xc) name v of
        Ok (b, sc) \<Rightarrow> Ok (xc\<lparr>scope := sc\<rparr>)
      | Err e \<Rightarrow> Err e
      | Panic p \<Rightarrow> Panic p)"

definition SetReturnValue :: "'f xContext \<Rightarrow> 'f val \<Rightarrow> 'f xContext" where
  "SetReturnValue xc v =
     (case scope xc of
        [] \<Rightarrow> xc
      | xs # parent \<Rightarrow> xc\<lparr>scope := xs\<lparr>returnResult := Some v\<rparr> # parent\<rparr>)"

text \<open>\<^verbatim>\<open>EnterBlock\<close>: the context with the new scope, and the loop index (\<open>-1\<close> outside a loop).\<close>

definition EnterBlock :: "'f xContext \<Rightarrow> bool \<Rightarrow> string \<Rightarrow> 'f xContext \<times> int" where
  "EnterBlock xc forLoop loopLabel =
     (let xc1 = xc\<lparr>scope := newScope # scope xc\<rparr>
      in if forLoop then
           (let labels = loopsLabel xc1 @ [loopLabel];
                loopIndex = int (length labels) - 1
            in (xc1\<lparr>loopsLabel := labels, loops := loops xc1 @ [loopIndex]\<rparr>, loopIndex))
         else (xc1, -1))"

definition ExitBlock :: "'f xContext \<Rightarrow> int \<Rightarrow> 'f xContext res" where
  "ExitBlock xc index =
     (if index \<ge> 0 \<and> index \<noteq> int (length (loopsLabel xc)) - 1 then Panic ''wrong exit loop block index''
      else
        let xc1 = (if index \<ge> 0
                   then xc\<lparr>loopsLabel := take (nat index) (loopsLabel xc), loops := butlast (loops xc)\<rparr>
                   else xc)
        in if tl (scope xc1) = [] then Panic ''exit block call on outter block''
           else Ok (xc1\<lparr>scope := tl (scope xc1)\<rparr>))"

definition currentLoop :: "'f xContext \<Rightarrow> int" where
  "currentLoop xc = (if length (loops xc) > 0 then last (loops xc) else -1)"

definition ShouldBreak :: "'f xContext \<Rightarrow> bool \<Rightarrow> bool" where
  "ShouldBreak xc fromLoop =
     (if length (loopsLabel xc) > 0 then
        (let loop = currentLoop xc
         in (breakAt xc \<ge> 0 \<and> breakAt xc \<le> loop) \<or>
            (continueAt xc \<ge> 0 \<and>
               (continueAt xc < loop \<or> (\<not> fromLoop \<and> continueAt xc = loop))))
      else False)"

definition ResetBreakContinue :: "'f xContext \<Rightarrow> 'f xContext" where
  "ResetBreakContinue xc = xc\<lparr>breakAt := -1, continueAt := -1\<rparr>"

text \<open>
  The search of \<^verbatim>\<open>Break\<close> and \<^verbatim>\<open>Continue\<close> for a label, from the innermost loop
  outwards: the index of the last occurrence.
\<close>

fun findLabel :: "string list \<Rightarrow> string \<Rightarrow> nat option" where
  "findLabel [] label = None"
| "findLabel (l # ls) label =
     (case findLabel ls label of
        Some i \<Rightarrow> Some (Suc i)
      | None \<Rightarrow> if l = label then Some 0 else None)"

text \<open>
  \<^verbatim>\<open>Break\<close> and \<^verbatim>\<open>Continue\<close>: the returned error and the context. With the empty label
  the index is recorded and the function still returns the final "not exist" error.
\<close>

definition Break :: "'f xContext \<Rightarrow> string \<Rightarrow> error option \<times> 'f xContext" where
  "Break xc label =
     (if length (loopsLabel xc) = 0 then (Some ErrNoLoop, xc)
      else if label = [] then
        (Some (ErrNoLabel label), xc\<lparr>breakAt := int (length (loopsLabel xc)) - 1\<rparr>)
      else case findLabel (loopsLabel xc) label of
             Some i \<Rightarrow> (None, xc\<lparr>breakAt := int i\<rparr>)
           | None \<Rightarrow> (Some (ErrNoLabel label), xc))"

definition Continue :: "'f xContext \<Rightarrow> string \<Rightarrow> error option \<times> 'f xContext" where
  "Continue xc label =
     (if length (loopsLabel xc) = 0 then (Some ErrNoLoop, xc)
      else if label = [] then
        (Some (ErrNoLabel label), xc\<lparr>continueAt := int (length (loopsLabel xc)) - 1\<rparr>)
      else case findLabel (loopsLabel xc) label of
             Some i \<Rightarrow> (None, xc\<lparr>continueAt := int i\<rparr>)
           | None \<Rightarrow> (Some (ErrNoLabel label), xc))"

section \<open>Slices and the operator \<open>+\<close>\<close>

text \<open>The elements of a slice: the first \<open>slen\<close> elements of its backing array.\<close>

definition sliceElems :: "'f xContext \<Rightarrow> slice \<Rightarrow> 'f val list" where
  "sliceElems xc s = take (slen s) (heap xc ! sarr s)"

text \<open>
  \<^verbatim>\<open>make([]any, 0, n)\<close> and the composite literal \<^verbatim>\<open>[]any{v, ...}\<close>: a new backing array
  (of \<^verbatim>\<open>nil\<close> elements for \<^verbatim>\<open>make\<close>) and the slice of it.
\<close>

definition makeSlice :: "nat \<Rightarrow> 'f xContext \<Rightarrow> slice \<times> 'f xContext" where
  "makeSlice n xc =
     (Slice (length (heap xc)) 0 n, xc\<lparr>heap := heap xc @ [replicate n VNil]\<rparr>)"

definition sliceLiteral :: "'f val list \<Rightarrow> 'f xContext \<Rightarrow> slice \<times> 'f xContext" where
  "sliceLiteral vs xc =
     (Slice (length (heap xc)) (length vs) (length vs), xc\<lparr>heap := heap xc @ [vs]\<rparr>)"

text \<open>
  Go's built-in \<^verbatim>\<open>append(s, vs...)\<close>. When the capacity of \<open>s\<close> has room for the new
  elements they are written into the backing array of \<open>s\<close>, after its length, and the
  result is a slice of the same array; otherwise a larger array is allocated, and the
  elements of \<open>s\<close> and the new ones are copied to it.
\<close>

definition appendSlice :: "'f runtime \<Rightarrow> slice \<Rightarrow> 'f val list \<Rightarrow> 'f xContext \<Rightarrow> slice \<times> 'f xContext" where
  "appendSlice rt s vs xc =
     (let h = heap xc; n = slen s; m = n + length vs
      in if m \<le> scap s then
           (Slice (sarr s) m (scap s),
            xc\<lparr>heap := h[sarr s := take n (h ! sarr s) @ vs @ drop m (h ! sarr s)]\<rparr>)
         else
           (let c = growslice rt (scap s) m
            in (Slice (length h) m c,
                xc\<lparr>heap := h @ [take n (h ! sarr s) @ vs @ replicate (c - m) VNil]\<rparr>)))"

text \<open>
  The three array forms of \<^verbatim>\<open>addOperator\<close> (label \<^verbatim>\<open>opOnArray\<close>), by \<^verbatim>\<open>head\<close>:
  \<^verbatim>\<open>append([]any{vl}, vr.([]any)...)\<close>, \<^verbatim>\<open>append(vl.([]any), vr)\<close> and
  \<^verbatim>\<open>append(vl.([]any), vr.([]any)...)\<close>.
\<close>

definition opOnArray ::
  "'f runtime \<Rightarrow> nat \<Rightarrow> 'f xContext \<Rightarrow> 'f val \<Rightarrow> 'f val \<Rightarrow> 'f val res \<times> 'f xContext" where
  "opOnArray rt head xc vl vr =
     (if head = 0 then
        (let (s, xc1) = sliceLiteral [vl] xc;
             (r, xc2) = appendSlice rt s (sliceElems xc1 (asSlice vr)) xc1
         in (Ok (VArray r), xc2))
      else if head = 1 then
        (let (r, xc1) = appendSlice rt (asSlice vl) [vr] xc
         in (Ok (VArray r), xc1))
      else if head = 2 then
        (let (r, xc1) = appendSlice rt (asSlice vl) (sliceElems xc (asSlice vr)) xc
         in (Ok (VArray r), xc1))
      else (Panic ''illegal state for array operation'', xc))"

text \<open>\<^verbatim>\<open>addOperator\<close>: the result and the context, whose store an array form may change.\<close>

definition addOperator ::
  "'f runtime \<Rightarrow> 'f xContext \<Rightarrow> 'f val \<Rightarrow> 'f val \<Rightarrow> 'f val res \<times> 'f xContext" where
  "addOperator fo xc vl vr =
     (if kindOf vl = KSlice then
        (if kindOf vr = KSlice then opOnArray fo 2 xc vl vr else opOnArray fo 1 xc vl vr)
      else if kindOf vr = KSlice then opOnArray fo 0 xc vl vr
      else if kindOf vl = KString \<or> kindOf vr = KString then
        (case convertToString fo vl of
           Inl e \<Rightarrow> (Err e, xc)
         | Inr s1 \<Rightarrow> (case convertToString fo vr of
                        Inl e \<Rightarrow> (Err e, xc)
                      | Inr s2 \<Rightarrow> (Ok (VString (s1 @ s2)), xc)))
      else if kindOf vl = KFloat64 \<or> kindOf vr = KFloat64 then
        (case convertToFloat fo vl of
           Inl e \<Rightarrow> (Err e, xc)
         | Inr f1 \<Rightarrow> (case convertToFloat fo vr of
                        Inl e \<Rightarrow> (Err e, xc)
                      | Inr f2 \<Rightarrow> (Ok (VFloat (fadd fo f1 f2)), xc)))
      else if kindOf vl = KInt64 \<and> kindOf vr = KInt64 then (Ok (VInt (asInt vl + asInt vr)), xc)
      else (Err (ErrOperator ADD), xc))"

section \<open>Expression nodes\<close>

text \<open>
  The expression nodes whose \<^verbatim>\<open>Evaluate\<close> is modelled. \<open>OtherNode\<close> is a node of any
  other kind (a call, an index expression, ...), given by its \<^verbatim>\<open>Evaluate\<close> method: what it
  returns and what it does to the context.
\<close>

datatype 'f node =
    BasicLit token string
  | Ident string
  | Conditional "'f node" "'f node" "'f node"
  | Fallback "'f node" "'f node"
  | TypeCast "'f node" token
  | ArrayLiteral "'f node list"
  | Paren "'f node"
  | Unary token "'f node"
  | IncDec token "'f node"
  | Binary "'f node" token "'f node"
  | OtherNode "'f xContext \<Rightarrow> 'f val res \<times> 'f xContext"

text \<open>
  Modelled from the spec: \<^verbatim>\<open>token.Token.Kind\<close> (package \<^verbatim>\<open>token\<close> is not among the
  sources), the kind a type keyword or a literal token denotes: integer, float, boolean
  or string.
\<close>

definition tokenKind :: "token \<Rightarrow> kind" where
  "tokenKind t =
     (if t = TINTEGER \<or> t = INTEGER then KInt64
      else if t = TFLOAT \<or> t = FLOAT then KFloat64
      else if t = TBOOLEAN \<or> t = BOOLEAN then KBool
      else if t = TSTRING \<or> t = STRING then KString
      else KInvalid)"

definition BasicLit_Evaluate :: "'f runtime \<Rightarrow> token \<Rightarrow> string \<Rightarrow> 'f val res" where
  "BasicLit_Evaluate rt k lit =
     (if k = INTEGER then (case ParseInt lit of Inl e \<Rightarrow> Err e | Inr v \<Rightarrow> Ok (VInt v))
      else if k = FLOAT then (case ParseFloat rt lit of None \<Rightarrow> Err ErrSyntax | Some v \<Rightarrow> Ok (VFloat v))
      else if k = BOOLEAN then (case ParseBool lit of Inl e \<Rightarrow> Err e | Inr v \<Rightarrow> Ok (VBool v))
      else if k = STRING then Ok (VString lit)
      else Err ErrInvalidLiteral)"

text \<open>
  \<^verbatim>\<open>TypeCast.Evaluate\<close> after its operand is evaluated. In the integer case the test for
  a string operand reads the named result \<^verbatim>\<open>k\<close>, which still holds its zero value
  \<^verbatim>\<open>reflect.Invalid\<close>, where the other cases read the operand's kind \<^verbatim>\<open>ik\<close>.
\<close>

definition typeCast :: "'f runtime \<Rightarrow> token \<Rightarrow> 'f val \<Rightarrow> 'f val res" where
  "typeCast rt to iv =
     (let ik = kindOf iv; tk = tokenKind to; k = KInvalid in
      if tk \<noteq> ik then
        (if tk = KInt64 then
           (if ik = KFloat64 then Ok (VInt (toInt64 rt (asFloat rt iv)))
            else if k = KString then
              (case ParseInt (asString iv) of Inr v \<Rightarrow> Ok (VInt v) | Inl e \<Rightarrow> Err (ErrCast tk))
            else Err (ErrCast tk))
         else if tk = KFloat64 then
           (if ik = KInt64 then Ok (VFloat (ofInt64 rt (asInt iv)))
            else if ik = KString then
              (case ParseFloat rt (asString iv) of Some v \<Rightarrow> Ok (VFloat v) | None \<Rightarrow> Err (ErrCast tk))
            else Err (ErrCast tk))
         else if tk = KBool then
           (if ik = KString then
              (case ParseBool (asString iv) of Inr v \<Rightarrow> Ok (VBool v) | Inl e \<Rightarrow> Err (ErrCast tk))
            else Err (ErrCast tk))
         else if tk = KString then
           (if ik = KInt64 then Ok (VString (FormatInt (asInt iv)))
            else if ik = KFloat64 then Ok (VString (FormatFloat rt (asFloat rt iv)))
            else if ik = KBool then Ok (VString (FormatBool (asBool iv)))
            else Err (ErrCast tk))
         else Err (ErrCast tk))
      else Ok iv)"

text \<open>\<^verbatim>\<open>Unary.Evaluate\<close> after its operand is evaluated.\<close>

definition unaryOp :: "'f runtime \<Rightarrow> token \<Rightarrow> 'f val \<Rightarrow> 'f val res" where
  "unaryOp rt op v0 =
     (if op = ADD \<or> op = SUB then
        (case (if kindOf v0 = KString then convertToNum rt (asString v0) else Inr v0) of
           Inl e \<Rightarrow> Err e
         | Inr v \<Rightarrow>
             if op = ADD then
               (if kindOf v = KFloat64 \<or> kindOf v = KInt64 then Ok v else Err (ErrUnary op))
             else
               (if kindOf v = KFloat64 then Ok (VFloat (fneg rt (asFloat rt v)))
                else if kindOf v = KInt64 then Ok (VInt (- asInt v))
                else Err (ErrUnary op)))
      else if op = XOR \<and> kindOf v0 = KInt64 then Ok (VInt (not (asInt v0)))
      else if op = NOT then
        (case v0 of
           VFloat f \<Rightarrow> Ok (VBool (\<not> feq rt f (ofInt64 rt 0)))
         | VInt i \<Rightarrow> Ok (VBool (i \<noteq> 0))
         | VBool b \<Rightarrow> Ok (VBool (\<not> b))
         | VString s \<Rightarrow> Ok (VBool (s \<noteq> []))
         | VMap m \<Rightarrow> Panic ''interface conversion''
         | VArray s \<Rightarrow> Ok (VBool True)
         | VNil \<Rightarrow> Ok (VBool False))
      else if op = FD then
        (if kindOf v0 = KString then Ok v0 else Panic ''interface conversion'')
      else Err (ErrUnary op))"

text \<open>
  \<^verbatim>\<open>IncDec.Evaluate\<close> after its operand is evaluated: the new value (label
  \<^verbatim>\<open>retryOnString\<close>: a numeric text is converted first).
\<close>

definition incDecOp :: "'f runtime \<Rightarrow> token \<Rightarrow> 'f val \<Rightarrow> 'f val res" where
  "incDecOp rt op v0 =
     (if op \<noteq> INC \<and> op \<noteq> DEC then Panic ''illegal state parser, operator must be increment or decrement''
      else
        let step = (if op = INC then 1 else -1 :: 64 word) in
        case (if kindOf v0 = KString then convertToNum rt (asString v0) else Inr v0) of
          Inl e \<Rightarrow> Err e
        | Inr v \<Rightarrow>
            if kindOf v = KFloat64 then Ok (VFloat (fadd rt (asFloat rt v) (ofInt64 rt step)))
            else if kindOf v = KInt64 then Ok (VInt (asInt v + step))
            else Err (ErrIncDec op))"

text \<open>
  The \<^verbatim>\<open>switch\<close> of \<^verbatim>\<open>Binary.Evaluate\<close>, once both operands are evaluated: the result
  and the context (only \<open>+\<close> on an array writes to its store).
\<close>

definition binaryOp ::
  "'f runtime \<Rightarrow> token \<Rightarrow> 'f val \<Rightarrow> 'f val \<Rightarrow> 'f xContext \<Rightarrow> 'f val res \<times> 'f xContext" where
  "binaryOp rt op vl vr xc =
     (if op = ADD then addOperator rt xc vl vr
      else if ADD < op \<and> op < LAND then (numOperator rt op vl vr, xc)
      else if EQL \<le> op \<and> op \<le> GEQ then (logicOperator rt op vl vr, xc)
      else if kindOf vl = kindOf vr \<and> kindOf vl = KBool then
        (if op = LAND then (Ok (VBool (asBool vl \<and> asBool vr)), xc)
         else if op = LOR then (Ok (VBool (asBool vl \<or> asBool vr)), xc)
         else (Err (ErrOperator op), xc))
      else (Err (ErrOperator op), xc))"

text \<open>
  The deferred function of \<^verbatim>\<open>IncDec.Evaluate\<close>: when the operand is an identifier and
  no error is returned, the new value is stored in the variable.
\<close>

definition incDecStore :: "'f node \<Rightarrow> 'f val \<Rightarrow> 'f xContext \<Rightarrow> 'f val res \<times> 'f xContext" where
  "incDecStore X v xc =
     (case X of
        Ident name \<Rightarrow>
          (case ctxSetVariable xc name v of
             Ok xc' \<Rightarrow> (Ok v, xc')
           | Err e \<Rightarrow> (Err e, xc)
           | Panic p \<Rightarrow> (Panic p, xc))
      | _ \<Rightarrow> (Ok v, xc))"

text \<open>
  \<^verbatim>\<open>Evaluate\<close> of each node: the result and the context after the evaluation.
  \<^verbatim>\<open>TypeCast.Evaluate\<close> discards the error of its operand and casts the value returned
  with it, which is \<^verbatim>\<open>nil\<close> for the nodes here. \<open>EvaluateValues\<close> is the loop of
  \<^verbatim>\<open>ArrayLiteral.Evaluate\<close>, which appends each value to \<^verbatim>\<open>result\<close>, made with the
  capacity \<^verbatim>\<open>len(al.Values)\<close>.
\<close>

fun Evaluate :: "'f runtime \<Rightarrow> 'f node \<Rightarrow> 'f xContext \<Rightarrow> 'f val res \<times> 'f xContext"
  and EvaluateValues :: "'f runtime \<Rightarrow> 'f node list \<Rightarrow> slice \<Rightarrow> 'f xContext \<Rightarrow> 'f val res \<times> 'f xContext"
where
  "Evaluate rt (BasicLit k lit) xc = (BasicLit_Evaluate rt k lit, xc)"
| "Evaluate rt (Ident name) xc = (Ok (fst (ctxGetVariable rt xc name)), xc)"
| "Evaluate rt (Conditional Cond T F) xc =
     (case Evaluate rt Cond xc of
        (Err e, xc1) \<Rightarrow> (Err e, xc1)
      | (Panic p, xc1) \<Rightarrow> (Panic p, xc1)
      | (Ok v, xc1) \<Rightarrow>
          if kindOf v \<noteq> KBool then (Err ErrNotBool, xc1)
          else if asBool v then Evaluate rt T xc1
          else Evaluate rt F xc1)"
| "Evaluate rt (Fallback Primary Default) xc =
     (case Evaluate rt Primary xc of
        (Panic p, xc1) \<Rightarrow> (Panic p, xc1)
      | (Err pErr, xc1) \<Rightarrow>
          (case Evaluate rt Default xc1 of
             (Err e, xc2) \<Rightarrow> (Err (ErrStack [pErr, e]), xc2)
           | r \<Rightarrow> r)
      | (Ok v, xc1) \<Rightarrow>
          if v = VNil then
            (case Evaluate rt Default xc1 of
               (Err e, xc2) \<Rightarrow> (Err (ErrStack [ErrMsg ''primary value nil'', e]), xc2)
             | r \<Rightarrow> r)
          else (Ok v, xc1))"
| "Evaluate rt (TypeCast X to) xc =
     (case Evaluate rt X xc of
        (Panic p, xc1) \<Rightarrow> (Panic p, xc1)
      | (Err e, xc1) \<Rightarrow> (typeCast rt to VNil, xc1)
      | (Ok iv, xc1) \<Rightarrow> (typeCast rt to iv, xc1))"
| "Evaluate rt (ArrayLiteral Values) xc =
     (case makeSlice (length Values) xc of (result, xc0) \<Rightarrow> EvaluateValues rt Values result xc0)"
| "Evaluate rt (Paren Inner) xc = Evaluate rt Inner xc"
| "Evaluate rt (Unary op X) xc =
     (case Evaluate rt X xc of
        (Err e, xc1) \<Rightarrow> (Err e, xc1)
      | (Panic p, xc1) \<Rightarrow> (Panic p, xc1)
      | (Ok v, xc1) \<Rightarrow> (unaryOp rt op v, xc1))"
| "Evaluate rt (IncDec op X) xc =
     (case Evaluate rt X xc of
        (Err e, xc1) \<Rightarrow> (Err e, xc1)
      | (Panic p, xc1) \<Rightarrow> (Panic p, xc1)
      | (Ok v, xc1) \<Rightarrow>
          (case incDecOp rt op v of
             Ok v' \<Rightarrow> incDecStore X v' xc1
           | Err e \<Rightarrow> (Err e, xc1)
           | Panic p \<Rightarrow> (Panic p, xc1)))"
| "Evaluate rt (Binary L op R) xc =
     (case Evaluate rt L xc of
        (Err e, xc1) \<Rightarrow> (Err e, xc1)
      | (Panic p, xc1) \<Rightarrow> (Panic p, xc1)
      | (Ok vl, xc1) \<Rightarrow>
          (case Evaluate rt R xc1 of
             (Err e, xc2) \<Rightarrow> (Err e, xc2)
           | (Panic p, xc2) \<Rightarrow> (Panic p, xc2)
           | (Ok vr, xc2) \<Rightarrow> binaryOp rt op vl vr xc2))"
| "Evaluate rt (OtherNode f) xc = f xc"
| "EvaluateValues rt [] result xc = (Ok (VArray result), xc)"
| "EvaluateValues rt (lv # lvs) result xc =
     (case Evaluate rt lv xc of
        (Err e, xc1) \<Rightarrow> (Err e, xc1)
      | (Panic p, xc1) \<Rightarrow> (Panic p, xc1)
      | (Ok v, xc1) \<Rightarrow>
          (case appendSlice rt result [v] xc1 of
             (result1, xc2) \<Rightarrow> EvaluateValues rt lvs result1 xc2))"

section \<open>Intervals\<close>

text \<open>
  \<^verbatim>\<open>Interval\<close>: the nodes \<^verbatim>\<open>A\<close> and \<^verbatim>\<open>B\<close> with their flags \<^verbatim>\<open>AInclude\<close> and
  \<^verbatim>\<open>BInclude\<close>, in the order \<open>Interval A AInclude B BInclude Step\<close>, and the optional
  \<^verbatim>\<open>Step\<close>. Its value is a \<^verbatim>\<open>[]int64\<close> or a \<^verbatim>\<open>[]float64\<close>, empty or the triple of
  start, end and step.
\<close>

datatype 'f Interval = Interval "'f node" bool "'f node" bool "'f node option"

datatype 'f rangeval = IntRange "64 word list" | FloatRange "'f list"

text \<open>The numeric part of \<^verbatim>\<open>Interval.Evaluate\<close>, once \<^verbatim>\<open>A\<close>, \<^verbatim>\<open>B\<close> and the step are values.\<close>

definition intervalRange :: "'f runtime \<Rightarrow> bool \<Rightarrow> bool \<Rightarrow> 'f val \<Rightarrow> 'f val \<Rightarrow> 'f val \<Rightarrow> 'f rangeval res" where
  "intervalRange rt AInclude BInclude a b step =
     (if (kindOf a \<noteq> KFloat64 \<and> kindOf a \<noteq> KInt64) \<or> (kindOf b \<noteq> KFloat64 \<and> kindOf b \<noteq> KInt64)
      then Err ErrInterval
      else if kindOf a = KFloat64 \<or> kindOf b = KFloat64 then
        (let fa = (case convertToFloat rt a of Inr f \<Rightarrow> f | Inl e \<Rightarrow> ofInt64 rt 0);
             fb = (case convertToFloat rt b of Inr f \<Rightarrow> f | Inl e \<Rightarrow> ofInt64 rt 0);
             st = (case convertToFloat rt step of Inr f \<Rightarrow> f | Inl e \<Rightarrow> ofInt64 rt 0)
         in if (\<not> AInclude \<or> \<not> BInclude) \<and> feq rt fa fb then Ok (FloatRange [])
            else
              let fa1 = (if \<not> AInclude then (if flt rt fb fa then fsub rt fa st else fadd rt fa st) else fa);
                  fb1 = (if \<not> BInclude then (if flt rt fb fa1 then fadd rt fb st else fsub rt fb st) else fb)
              in Ok (FloatRange [fa1, fb1, st]))
      else
        (let ia = asInt a; ib = asInt b;
             st = (case convertToInt step of Inr i \<Rightarrow> i | Inl e \<Rightarrow> 0)
         in if (\<not> AInclude \<or> \<not> BInclude) \<and> ia = ib then Ok (IntRange [])
            else
              let ia1 = (if \<not> AInclude then (if ib <s ia then ia - st else ia + st) else ia);
                  ib1 = (if \<not> BInclude then (if ib <s ia1 then ib + st else ib - st) else ib)
              in Ok (IntRange [ia1, ib1, st])))"

text \<open>A text operand of an interval is converted to a number first.\<close>

definition intervalOperand :: "'f runtime \<Rightarrow> 'f val \<Rightarrow> error + 'f val" where
  "intervalOperand rt a = (if kindOf a = KString then convertToNum rt (asString a) else Inr a)"

fun Interval_Evaluate :: "'f runtime \<Rightarrow> 'f Interval \<Rightarrow> 'f xContext \<Rightarrow> 'f rangeval res \<times> 'f xContext" where
  "Interval_Evaluate rt (Interval A AInclude B BInclude Step) xc =
     (case Evaluate rt A xc of
        (Err e, xc1) \<Rightarrow> (Err e, xc1)
      | (Panic p, xc1) \<Rightarrow> (Panic p, xc1)
      | (Ok a0, xc1) \<Rightarrow>
          (case Evaluate rt B xc1 of
             (Err e, xc2) \<Rightarrow> (Err e, xc2)
           | (Panic p, xc2) \<Rightarrow> (Panic p, xc2)
           | (Ok b0, xc2) \<Rightarrow>
               (case intervalOperand rt a0 of
                  Inl e \<Rightarrow> (Err e, xc2)
                | Inr a \<Rightarrow>
                    (case intervalOperand rt b0 of
                       Inl e \<Rightarrow> (Err e, xc2)
                     | Inr b \<Rightarrow>
                         (case Step of
                            None \<Rightarrow> (intervalRange rt AInclude BInclude a b (VInt 1), xc2)
                          | Some sn \<Rightarrow>
                              (case Evaluate rt sn xc2 of
                                 (Err e, xc3) \<Rightarrow> (Err e, xc3)
                               | (Panic p, xc3) \<Rightarrow> (Panic p, xc3)
                               | (Ok step, xc3) \<Rightarrow>
                                   if kindOf step \<noteq> KInt64 \<and> kindOf step \<noteq> KFloat64
                                   then (Err ErrStep, xc3)
                                   else (intervalRange rt AInclude BInclude a b step, xc3)))))))"

section \<open>Statements\<close>

text \<open>
  The statements whose \<^verbatim>\<open>Evaluate\<close> is modelled. A \<^verbatim>\<open>BlockStatement\<close> is the list of its
  statements. An \<open>AssignStatement\<close> assigns to an identifier, from a node that is neither a
  call, a transformation, a map merge nor an index expression (the node kinds
  \<^verbatim>\<open>AssignStatement.Evaluate\<close> treats apart). A \<open>ForStatement\<close> has its label, its index
  variable, its range (none for the infinite loop) and its body; the loop over a container
  is not modelled. \<open>OtherStmt\<close> is a statement of any other kind, given by its
  \<^verbatim>\<open>Evaluate\<close> method, which returns with the scope it was entered in as the current one.
\<close>

datatype 'f stmt =
    AssignStatement string token "'f node"
  | BreakContinueStatement string token
  | ExprWrapperStatement "'f node"
  | ReturnStatement "'f node"
  | ForStatement string string "'f Interval option" "'f stmt list"
  | IfStatement "'f node" "'f stmt list" "'f elseStmt option"
  | OtherStmt "'f xContext \<Rightarrow> unit res \<times> 'f xContext"
and 'f elseStmt =
    ElseStatement "'f stmt option" "'f stmt list"

text \<open>
  The result of a statement: \<open>None\<close> when the evaluation does not return within the given
  number of steps, else \<^verbatim>\<open>nil\<close> (\<open>Ok ()\<close>), the error or the panic, with the context.
\<close>

type_synonym 'f sresult = "(unit res \<times> 'f xContext) option"

text \<open>\<^verbatim>\<open>Ident.Set\<close>.\<close>

definition Ident_Set :: "'f xContext \<Rightarrow> string \<Rightarrow> 'f val \<Rightarrow> unit res \<times> 'f xContext" where
  "Ident_Set xc name v =
     (if v \<noteq> VNil then
        (case ctxSetVariable xc name v of
           Ok xc' \<Rightarrow> (Ok (), xc')
         | Err e \<Rightarrow> (Err e, xc)
         | Panic p \<Rightarrow> (Panic p, xc))
      else (Err (ErrAssignNil name), xc))"

text \<open>
  \<^verbatim>\<open>AssignStatement.Evaluate\<close>. After a compound assignment the result of \<^verbatim>\<open>Ident.Set\<close>
  is dropped and \<^verbatim>\<open>nil\<close> is returned.
\<close>

definition AssignStatement_Evaluate ::
  "'f runtime \<Rightarrow> string \<Rightarrow> token \<Rightarrow> 'f node \<Rightarrow> 'f xContext \<Rightarrow> unit res \<times> 'f xContext" where
  "AssignStatement_Evaluate rt name op Value xc =
     (case Evaluate rt Value xc of
        (Err e, xc1) \<Rightarrow> (Err e, xc1)
      | (Panic p, xc1) \<Rightarrow> (Panic p, xc1)
      | (Ok i, xc1) \<Rightarrow>
          if op = ASSIGN then Ident_Set xc1 name i
          else
            let v = fst (ctxGetVariable rt xc1 name) in
            if v = VNil then (Err (ErrNoVariable name), xc1)
            else if op = ADD_ASSIGN then
              (case addOperator rt xc1 v i of
                 (Err e, xc2) \<Rightarrow> (Err e, xc2)
               | (Panic p, xc2) \<Rightarrow> (Panic p, xc2)
               | (Ok sm, xc2) \<Rightarrow>
                   (case Ident_Set xc2 name sm of
                      (Panic p, xc3) \<Rightarrow> (Panic p, xc3)
                    | (r, xc3) \<Rightarrow> (Ok (), xc3)))
            else if op = SUB_ASSIGN \<or> op = MUL_ASSIGN \<or> op = QUO_ASSIGN \<or> op = REM_ASSIGN then
              (case numOperator rt (op - 5) v i of
                 Err e \<Rightarrow> (Err e, xc1)
               | Panic p \<Rightarrow> (Panic p, xc1)
               | Ok r \<Rightarrow>
                   (case Ident_Set xc1 name r of
                      (Panic p, xc2) \<Rightarrow> (Panic p, xc2)
                    | (r', xc2) \<Rightarrow> (Ok (), xc2)))
            else (Panic ''illegal state parser. Parser should verify the permitted operator already'', xc1))"

text \<open>\<^verbatim>\<open>BreakContinueStatement.Evaluate\<close>: the error of \<^verbatim>\<open>Break\<close> or \<^verbatim>\<open>Continue\<close> is dropped.\<close>

definition BreakContinueStatement_Evaluate :: "string \<Rightarrow> token \<Rightarrow> 'f xContext \<Rightarrow> unit res \<times> 'f xContext" where
  "BreakContinueStatement_Evaluate label op xc =
     (if op = BREAK then (Ok (), snd (Break xc label))
      else if op = CONTINUE then (Ok (), snd (Continue xc label))
      else (Panic ''invalid token'', xc))"

definition ExprWrapperStatement_Evaluate :: "'f runtime \<Rightarrow> 'f node \<Rightarrow> 'f xContext \<Rightarrow> unit res \<times> 'f xContext" where
  "ExprWrapperStatement_Evaluate rt X xc =
     (case Evaluate rt X xc of
        (Ok v, xc1) \<Rightarrow> (Ok (), xc1)
      | (Err e, xc1) \<Rightarrow> (Err e, xc1)
      | (Panic p, xc1) \<Rightarrow> (Panic p, xc1))"

definition ReturnStatement_Evaluate :: "'f runtime \<Rightarrow> 'f node \<Rightarrow> 'f xContext \<Rightarrow> unit res \<times> 'f xContext" where
  "ReturnStatement_Evaluate rt X xc =
     (case Evaluate rt X xc of
        (Ok v, xc1) \<Rightarrow> (Ok (), SetReturnValue xc1 v)
      | (Err e, xc1) \<Rightarrow> (Err e, xc1)
      | (Panic p, xc1) \<Rightarrow> (Panic p, xc1))"

text \<open>
  \<^verbatim>\<open>BlockStatement.Evaluate\<close>, over the \<^verbatim>\<open>Evaluate\<close> of the statements it holds: it stops
  at the first error, and after a statement when \<^verbatim>\<open>ShouldBreak(false)\<close> holds.
\<close>

fun BlockStatement_Evaluate ::
  "('f stmt \<Rightarrow> 'f xContext \<Rightarrow> 'f sresult) \<Rightarrow> 'f stmt list \<Rightarrow> 'f xContext \<Rightarrow> 'f sresult" where
  "BlockStatement_Evaluate ev [] xc = Some (Ok (), xc)"
| "BlockStatement_Evaluate ev (stmt # stmts) xc =
     (case ev stmt xc of
        None \<Rightarrow> None
      | Some (Err e, xc1) \<Rightarrow> Some (Err e, xc1)
      | Some (Panic p, xc1) \<Rightarrow> Some (Panic p, xc1)
      | Some (Ok u, xc1) \<Rightarrow>
          if ShouldBreak xc1 False then Some (Ok (), xc1)
          else BlockStatement_Evaluate ev stmts xc1)"

text \<open>
  \<^verbatim>\<open>ForStatement.executeInsts\<close> for a range loop (\<open>ikind\<close> the kind of the index) and for
  the infinite loop (\<open>ikind = KInvalid\<close>): \<^verbatim>\<open>needBreak\<close> and the index variable's value.
\<close>

definition executeInsts ::
  "'f runtime \<Rightarrow> ('f stmt \<Rightarrow> 'f xContext \<Rightarrow> 'f sresult) \<Rightarrow> 'f stmt list \<Rightarrow> string \<Rightarrow> kind
     \<Rightarrow> 'f xContext \<Rightarrow> ((bool \<times> 'f val) res \<times> 'f xContext) option" where
  "executeInsts rt ev Insts I ikind xc =
     (case BlockStatement_Evaluate ev Insts xc of
        None \<Rightarrow> None
      | Some (Err e, xc1) \<Rightarrow> Some (Err e, xc1)
      | Some (Panic p, xc1) \<Rightarrow> Some (Panic p, xc1)
      | Some (Ok u, xc1) \<Rightarrow>
          (let sb = ShouldBreak xc1 True;
               xc2 = (if \<not> sb then ResetBreakContinue xc1 else xc1)
           in if ikind \<noteq> KInvalid then
                (let v = fst (ctxGetVariable rt xc2 I)
                 in if ikind \<noteq> kindOf v then Some (Err ErrLoopIndexKind, xc2)
                    else Some (Ok (sb, v), xc2))
              else Some (Ok (sb, VNil), xc2)))"


text \<open>
  The four range loops of \<^verbatim>\<open>ForStatement.Evaluate\<close> (integer or float, upwards or
  downwards) differ in the test \<open>cond\<close>, the step \<open>next\<close> and the type of the index: each
  stores the index in the loop variable, runs the body, stops on an error or on
  \<^verbatim>\<open>needBreak\<close>, and goes on from the value the body left in the variable. The first
  argument bounds the number of iterations.
\<close>

fun rangeLoop ::
  "nat \<Rightarrow> ('i \<Rightarrow> bool) \<Rightarrow> ('i \<Rightarrow> 'i) \<Rightarrow> ('i \<Rightarrow> 'f val) \<Rightarrow> ('f val \<Rightarrow> 'i)
     \<Rightarrow> ('f xContext \<Rightarrow> ((bool \<times> 'f val) res \<times> 'f xContext) option)
     \<Rightarrow> string \<Rightarrow> 'i \<Rightarrow> 'f xContext \<Rightarrow> 'f sresult" where
  "rangeLoop 0 cond next wrap unwrap body I i xc = None"
| "rangeLoop (Suc n) cond next wrap unwrap body I i xc =
     (if \<not> cond i then Some (Ok (), xc)
      else case ctxSetVariable xc I (wrap i) of
             Err e \<Rightarrow> Some (Err e, xc)
           | Panic p \<Rightarrow> Some (Panic p, xc)
           | Ok xc1 \<Rightarrow>
               (case body xc1 of
                  None \<Rightarrow> None
                | Some (Err e, xc2) \<Rightarrow> Some (Err e, xc2)
                | Some (Panic p, xc2) \<Rightarrow> Some (Panic p, xc2)
                | Some (Ok (nb, ni), xc2) \<Rightarrow>
                    if nb then Some (Ok (), xc2)
                    else rangeLoop n cond next wrap unwrap body I (next (unwrap ni)) xc2))"

text \<open>The infinite loop: only \<^verbatim>\<open>needBreak\<close> or an error ends it.\<close>

fun foreverLoop ::
  "nat \<Rightarrow> ('f xContext \<Rightarrow> ((bool \<times> 'f val) res \<times> 'f xContext) option) \<Rightarrow> 'f xContext \<Rightarrow> 'f sresult" where
  "foreverLoop 0 body xc = None"
| "foreverLoop (Suc n) body xc =
     (case body xc of
        None \<Rightarrow> None
      | Some (Err e, xc2) \<Rightarrow> Some (Err e, xc2)
      | Some (Panic p, xc2) \<Rightarrow> Some (Panic p, xc2)
      | Some (Ok (nb, ni), xc2) \<Rightarrow>
          if nb then Some (Ok (), xc2) else foreverLoop n body xc2)"

text \<open>The deferred \<^verbatim>\<open>ctx.ExitBlock(index)\<close>, which runs however the function ends.\<close>

definition deferExitBlock :: "int \<Rightarrow> 'f sresult \<Rightarrow> 'f sresult" where
  "deferExitBlock index r =
     (case r of
        None \<Rightarrow> None
      | Some (x, xc) \<Rightarrow>
          (case ExitBlock xc index of
             Ok xc' \<Rightarrow> Some (x, xc')
           | Err e \<Rightarrow> Some (Err e, xc)
           | Panic p \<Rightarrow> Some (Panic p, xc)))"

text \<open>
  \<^verbatim>\<open>ForStatement.Evaluate\<close> for the range loop and the infinite loop. An empty
  \<^verbatim>\<open>[]float64\<close> range fails the type assertion \<^verbatim>\<open>rg.([]int64)\<close>, which panics; an empty
  \<^verbatim>\<open>[]int64\<close> range runs no iteration.
\<close>

definition ForStatement_Evaluate ::
  "'f runtime \<Rightarrow> nat \<Rightarrow> ('f stmt \<Rightarrow> 'f xContext \<Rightarrow> 'f sresult) \<Rightarrow> string \<Rightarrow> string
     \<Rightarrow> 'f Interval option \<Rightarrow> 'f stmt list \<Rightarrow> 'f xContext \<Rightarrow> 'f sresult" where
  "ForStatement_Evaluate rt n ev Label I Rng Insts xc =
     (case Rng of
        None \<Rightarrow>
          (let (xc1, lid) = EnterBlock xc True Label
           in deferExitBlock lid (foreverLoop n (executeInsts rt ev Insts I KInvalid) xc1))
      | Some r \<Rightarrow>
          (case Interval_Evaluate rt r xc of
             (Err e, xc1) \<Rightarrow> Some (Err e, xc1)
           | (Panic p, xc1) \<Rightarrow> Some (Panic p, xc1)
           | (Ok (FloatRange flrg), xc1) \<Rightarrow>
               if length flrg = 3 then
                 (let step = flrg ! 2;
                      (xc2, lid) = EnterBlock xc1 True Label;
                      body = executeInsts rt ev Insts I KFloat64
                  in deferExitBlock lid
                       (if flt rt (flrg ! 1) (flrg ! 0)
                        then rangeLoop n (\<lambda>i. fle rt (flrg ! 1) i) (\<lambda>i. fsub rt i step)
                               VFloat (asFloat rt) body I (flrg ! 0) xc2
                        else rangeLoop n (\<lambda>i. fle rt i (flrg ! 1)) (\<lambda>i. fadd rt i step)
                               VFloat (asFloat rt) body I (flrg ! 0) xc2))
               else Some (Panic ''interface conversion: interface {} is []float64, not []int64'', xc1)
           | (Ok (IntRange ilrg), xc1) \<Rightarrow>
               if length ilrg = 3 then
                 (let step = ilrg ! 2;
                      (xc2, lid) = EnterBlock xc1 True Label;
                      body = executeInsts rt ev Insts I KInt64
                  in deferExitBlock lid
                       (if ilrg ! 1 <s ilrg ! 0
                        then rangeLoop n (\<lambda>i. ilrg ! 1 \<le>s i) (\<lambda>i. i - step)
                               VInt asInt body I (ilrg ! 0) xc2
                        else rangeLoop n (\<lambda>i. i \<le>s ilrg ! 1) (\<lambda>i. i + step)
                               VInt asInt body I (ilrg ! 0) xc2))
               else Some (Ok (), xc1)))"

text \<open>
  \<^verbatim>\<open>Evaluate\<close> of a statement. The first argument bounds the nesting of statements and
  the iterations of each loop; \<open>None\<close> means that the bound was reached.
\<close>

fun Statement_Evaluate :: "'f runtime \<Rightarrow> nat \<Rightarrow> 'f stmt \<Rightarrow> 'f xContext \<Rightarrow> 'f sresult" where
  "Statement_Evaluate rt 0 s xc = None"
| "Statement_Evaluate rt (Suc n) s xc =
     (case s of
        AssignStatement name op Value \<Rightarrow> Some (AssignStatement_Evaluate rt name op Value xc)
      | BreakContinueStatement label op \<Rightarrow> Some (BreakContinueStatement_Evaluate label op xc)
      | ExprWrapperStatement X \<Rightarrow> Some (ExprWrapperStatement_Evaluate rt X xc)
      | ReturnStatement X \<Rightarrow> Some (ReturnStatement_Evaluate rt X xc)
      | ForStatement Label I Rng Insts \<Rightarrow>
          ForStatement_Evaluate rt n (\<lambda>s' xc'. Statement_Evaluate rt n s' xc') Label I Rng Insts xc
      | IfStatement Cond Insts Else \<Rightarrow>
          (case Evaluate rt Cond xc of
             (Err e, xc1) \<Rightarrow> Some (Err e, xc1)
           | (Panic p, xc1) \<Rightarrow> Some (Panic p, xc1)
           | (Ok v, xc1) \<Rightarrow>
               if kindOf v \<noteq> KBool then Some (Err (ErrMsg []), xc1)
               else if asBool v then
                 BlockStatement_Evaluate (\<lambda>s' xc'. Statement_Evaluate rt n s' xc') Insts xc1
               else
                 (case Else of
                    None \<Rightarrow> Some (Ok (), xc1)
                  | Some (ElseStatement (Some IfStmt) EInsts) \<Rightarrow> Statement_Evaluate rt n IfStmt xc1
                  | Some (ElseStatement None EInsts) \<Rightarrow>
                      BlockStatement_Evaluate (\<lambda>s' xc'. Statement_Evaluate rt n s' xc') EInsts xc1))
      | OtherStmt f \<Rightarrow> Some (f xc))"

declare Statement_Evaluate.simps [simp del]


section \<open>Targets and the program\<close>

text \<open>\<^verbatim>\<open>Target\<close> (fields \<^verbatim>\<open>all\<close>, \<^verbatim>\<open>Insts\<close>, \<^verbatim>\<open>name\<close>) and \<^verbatim>\<open>cook\<close>, the parsed program.\<close>

record 'f Target =
  tAll :: bool
  tInsts :: "'f stmt list"
  tName :: string

record 'f cook =
  targets :: "string \<rightharpoonup> nat"
  targetIndexes :: "'f Target list"
  initializeTargets :: "'f Target list"
  finalizeTargets :: "'f Target list"
  targetAll :: "'f Target option"
  cInsts :: "'f stmt list option"

text \<open>\<^verbatim>\<open>xContext.GetTarget\<close>; an index beyond the list is a panic of Go, \<open>None\<close> here as well.\<close>

definition GetTarget :: "'f cook \<Rightarrow> string \<Rightarrow> 'f Target option" where
  "GetTarget c name =
     (case targets c name of
        Some ind \<Rightarrow>
          if length (targetIndexes c) > 0 \<and> ind < length (targetIndexes c)
          then Some (targetIndexes c ! ind) else None
      | None \<Rightarrow> None)"

text \<open>The arguments of a target are bound to the names \<^verbatim>\<open>"1"\<close>, \<^verbatim>\<open>"2"\<close>, ...\<close>

fun setTargetArgs :: "nat \<Rightarrow> 'f val list \<Rightarrow> 'f xContext \<Rightarrow> 'f xContext res" where
  "setTargetArgs i [] xc = Ok xc"
| "setTargetArgs i (fa # fas) xc =
     (case ctxSetVariable xc (showNat (i + 1)) fa of
        Ok xc1 \<Rightarrow> setTargetArgs (i + 1) fas xc1
      | Err e \<Rightarrow> Err e
      | Panic p \<Rightarrow> Panic p)"

text \<open>
  \<^verbatim>\<open>Target.Execute\<close>: a new scope, the arguments and their count \<^verbatim>\<open>"0"\<close>, the statements,
  and the deferred \<^verbatim>\<open>ExitBlock(-1)\<close>. The target is \<open>None\<close> for the \<^verbatim>\<open>nil\<close> that
  \<^verbatim>\<open>GetTarget\<close> returns for an unknown name; reading its \<^verbatim>\<open>Insts\<close> panics.
\<close>

definition Target_Execute ::
  "'f runtime \<Rightarrow> nat \<Rightarrow> 'f Target option \<Rightarrow> 'f val list \<Rightarrow> 'f xContext \<Rightarrow> 'f sresult" where
  "Target_Execute rt n t args xc =
     (let (xc1, lid) = EnterBlock xc False []
      in deferExitBlock (-1)
           (case setTargetArgs 0 args xc1 of
              Err e \<Rightarrow> Some (Err e, xc1)
            | Panic p \<Rightarrow> Some (Panic p, xc1)
            | Ok xc2 \<Rightarrow>
                (case ctxSetVariable xc2 ''0'' (VInt (word_of_nat (length args))) of
                   Err e \<Rightarrow> Some (Err e, xc2)
                 | Panic p \<Rightarrow> Some (Panic p, xc2)
                 | Ok xc3 \<Rightarrow>
                     (case t of
                        None \<Rightarrow> Some (Panic ''invalid memory address or nil pointer dereference'', xc3)
                      | Some tg \<Rightarrow>
                          BlockStatement_Evaluate (\<lambda>s xc'. Statement_Evaluate rt n s xc') (tInsts tg) xc3))))"

text \<open>What \<^verbatim>\<open>ExecuteWithTarget\<close> prints: a warning on the standard error or output.\<close>

datatype message =
    FinalizeWarning error   \<comment> \<open>"Error while executing finalize target ..." on \<^verbatim>\<open>os.Stderr\<close>\<close>
  | AllIgnoredWarning       \<comment> \<open>"warning: target all was include among other, ..."\<close>

text \<open>The parameters \<^verbatim>\<open>pargs\<close> (a map: the names are distinct) are set in the top scope.\<close>

fun setProgramArgs :: "(string \<times> 'f val) list \<Rightarrow> 'f xContext \<Rightarrow> 'f xContext res" where
  "setProgramArgs [] xc = Ok xc"
| "setProgramArgs ((name, v) # pargs) xc =
     (case ctxSetVariable xc name v of
        Ok xc1 \<Rightarrow> setProgramArgs pargs xc1
      | Err e \<Rightarrow> Err e
      | Panic p \<Rightarrow> Panic p)"

text \<open>The loop over the \<^verbatim>\<open>initialize\<close> targets: the first error is returned.\<close>

fun runInitialize :: "'f runtime \<Rightarrow> nat \<Rightarrow> 'f Target list \<Rightarrow> 'f xContext \<Rightarrow> 'f sresult" where
  "runInitialize rt n [] xc = Some (Ok (), xc)"
| "runInitialize rt n (init # inits) xc =
     (case Target_Execute rt n (Some init) [] xc of
        None \<Rightarrow> None
      | Some (Ok u, xc1) \<Rightarrow> runInitialize rt n inits xc1
      | Some (Err e, xc1) \<Rightarrow> Some (Err e, xc1)
      | Some (Panic p, xc1) \<Rightarrow> Some (Panic p, xc1))"

text \<open>
  The deferred function of \<^verbatim>\<open>ExecuteWithTarget\<close>: each \<^verbatim>\<open>finalize\<close> target is executed
  and its error, if any, printed as a warning. It returns no error; only a panic or a
  target that does not return stops it.
\<close>

fun runFinalize ::
  "'f runtime \<Rightarrow> nat \<Rightarrow> 'f Target list \<Rightarrow> 'f xContext \<Rightarrow> (unit res \<times> 'f xContext \<times> message list) option" where
  "runFinalize rt n [] xc = Some (Ok (), xc, [])"
| "runFinalize rt n (final # finals) xc =
     (case Target_Execute rt n (Some final) [] xc of
        None \<Rightarrow> None
      | Some (Panic p, xc1) \<Rightarrow> Some (Panic p, xc1, [])
      | Some (Err ferr, xc1) \<Rightarrow>
          (case runFinalize rt n finals xc1 of
             None \<Rightarrow> None
           | Some (r, xc2, out) \<Rightarrow> Some (r, xc2, FinalizeWarning ferr # out))
      | Some (Ok u, xc1) \<Rightarrow> runFinalize rt n finals xc1)"

text \<open>The loop of the \<^verbatim>\<open>all: *\<close> form over every declared target, each in a scope of its own.\<close>

fun runEveryTarget :: "'f runtime \<Rightarrow> nat \<Rightarrow> 'f Target list \<Rightarrow> 'f xContext \<Rightarrow> 'f sresult" where
  "runEveryTarget rt n [] xc = Some (Ok (), xc)"
| "runEveryTarget rt n (t # ts) xc =
     (case Target_Execute rt n (Some t) [] (fst (EnterBlock xc False [])) of
        None \<Rightarrow> None
      | Some (Err e, xc1) \<Rightarrow> Some (Err e, xc1)
      | Some (Panic p, xc1) \<Rightarrow> Some (Panic p, xc1)
      | Some (Ok u, xc1) \<Rightarrow>
          (case ExitBlock xc1 (-1) of
             Ok xc2 \<Rightarrow> runEveryTarget rt n ts xc2
           | Err e \<Rightarrow> Some (Err e, xc1)
           | Panic p \<Rightarrow> Some (Panic p, xc1)))"

text \<open>
  The loop over the requested names: \<^verbatim>\<open>all\<close> among other names is skipped with a
  warning; each other target runs in a scope of its own, and the first error is returned
  at once (without leaving that scope).
\<close>

fun runNamedTargets ::
  "'f runtime \<Rightarrow> nat \<Rightarrow> 'f cook \<Rightarrow> string list \<Rightarrow> 'f xContext \<Rightarrow> (unit res \<times> 'f xContext \<times> message list) option" where
  "runNamedTargets rt n c [] xc = Some (Ok (), xc, [])"
| "runNamedTargets rt n c (name # names) xc =
     (if name = ''all'' then
        (case runNamedTargets rt n c names xc of
           None \<Rightarrow> None
         | Some (r, xc1, out) \<Rightarrow> Some (r, xc1, AllIgnoredWarning # out))
      else
        (case Target_Execute rt n (GetTarget c name) [] (fst (EnterBlock xc False [])) of
           None \<Rightarrow> None
         | Some (Err e, xc1) \<Rightarrow> Some (Err e, xc1, [])
         | Some (Panic p, xc1) \<Rightarrow> Some (Panic p, xc1, [])
         | Some (Ok u, xc1) \<Rightarrow>
             (case ExitBlock xc1 (-1) of
                Ok xc2 \<Rightarrow> runNamedTargets rt n c names xc2
              | Err e \<Rightarrow> Some (Err e, xc1, [])
              | Panic p \<Rightarrow> Some (Panic p, xc1, []))))"

text \<open>
  The part of \<^verbatim>\<open>ExecuteWithTarget\<close> after the \<^verbatim>\<open>defer\<close>: the requested targets.
\<close>

definition runRequested ::
  "'f runtime \<Rightarrow> nat \<Rightarrow> 'f cook \<Rightarrow> string list \<Rightarrow> 'f xContext \<Rightarrow> (unit res \<times> 'f xContext \<times> message list) option" where
  "runRequested rt n c names xc =
     (if length names = 1 \<and> names ! 0 = ''all'' then
        (let xc1 = fst (EnterBlock xc False [])
         in case targetAll c of
              None \<Rightarrow> Some (Err ErrNoTargetAll, xc1, [])
            | Some ta \<Rightarrow>
                (case (if tAll ta then runEveryTarget rt n (targetIndexes c) xc1
                       else Target_Execute rt n (Some ta) [] xc1) of
                   None \<Rightarrow> None
                 | Some (Err e, xc2) \<Rightarrow> Some (Err e, xc2, [])
                 | Some (Panic p, xc2) \<Rightarrow> Some (Panic p, xc2, [])
                 | Some (Ok u, xc2) \<Rightarrow>
                     (case ExitBlock xc2 (-1) of
                        Ok xc3 \<Rightarrow> Some (Ok (), xc3, [])
                      | Err e \<Rightarrow> Some (Err e, xc2, [])
                      | Panic p \<Rightarrow> Some (Panic p, xc2, []))))
      else runNamedTargets rt n c names xc)"

text \<open>
  \<^verbatim>\<open>cook.ExecuteWithTarget\<close>: what it returns, the context it leaves in \<^verbatim>\<open>c.ctx\<close>, and
  what it printed. The top-level statements and the \<^verbatim>\<open>initialize\<close> targets run before
  the \<^verbatim>\<open>defer\<close> statement; from there on, the \<^verbatim>\<open>finalize\<close> targets run however the
  function ends.
\<close>

definition ExecuteWithTarget ::
  "'f runtime \<Rightarrow> nat \<Rightarrow> 'f cook \<Rightarrow> (string \<times> 'f val) list \<Rightarrow> string list
     \<Rightarrow> (unit res \<times> 'f xContext \<times> message list) option" where
  "ExecuteWithTarget rt n c pargs names =
     (case setProgramArgs pargs renewContext of
        Err e \<Rightarrow> Some (Err e, renewContext, [])
      | Panic p \<Rightarrow> Some (Panic p, renewContext, [])
      | Ok xc0 \<Rightarrow>
          (case (case cInsts c of
                   None \<Rightarrow> Some (Ok (), xc0)
                 | Some b \<Rightarrow> BlockStatement_Evaluate (\<lambda>s xc'. Statement_Evaluate rt n s xc') b xc0) of
             None \<Rightarrow> None
           | Some (Err e, xc1) \<Rightarrow> Some (Err e, xc1, [])
           | Some (Panic p, xc1) \<Rightarrow> Some (Panic p, xc1, [])
           | Some (Ok u, xc1) \<Rightarrow>
               (case runInitialize rt n (initializeTargets c) xc1 of
                  None \<Rightarrow> None
                | Some (Err e, xc2) \<Rightarrow> Some (Err e, xc2, [])
                | Some (Panic p, xc2) \<Rightarrow> Some (Panic p, xc2, [])
                | Some (Ok u, xc2) \<Rightarrow>
                    (case runRequested rt n c names xc2 of
                       None \<Rightarrow> None
                     | Some (r, xc3, out) \<Rightarrow>
                         (case runFinalize rt n (finalizeTargets c) xc3 of
                            None \<Rightarrow> None
                          | Some (Panic p, xc4, warns) \<Rightarrow> Some (Panic p, xc4, out @ warns)
                          | Some (fr, xc4, warns) \<Rightarrow> Some (r, xc4, out @ warns))))))"


section \<open>The expression parser\<close>

text \<open>
  \<^verbatim>\<open>Token.Precedence\<close>, \<^verbatim>\<open>Token.IsComparison\<close> and \<^verbatim>\<open>token.LowestPrec\<close> belong to the
  package \<^verbatim>\<open>token\<close>, which is not among the sources: they are parameters of the parser.
\<close>

record tokenTable =
  Precedence :: "token \<Rightarrow> nat"
  IsComparison :: "token \<Rightarrow> bool"
  LowestPrec :: nat

text \<open>
  The parser reads the scanner's tokens through the current token (\<^verbatim>\<open>cTok\<close>, \<^verbatim>\<open>cLit\<close>)
  and one token of lookahead (\<^verbatim>\<open>nTok\<close>). Its position in the input is the list of the
  tokens from the current one on, each with its literal; past the end the token is
  \<^verbatim>\<open>EOF\<close>, and \<^verbatim>\<open>next\<close> stays there.
\<close>

type_synonym tokens = "(token \<times> string) list"

definition cTok :: "tokens \<Rightarrow> token" where
  "cTok ts = (case ts of [] \<Rightarrow> EOF | t # r \<Rightarrow> fst t)"

definition cLit :: "tokens \<Rightarrow> string" where
  "cLit ts = (case ts of [] \<Rightarrow> [] | t # r \<Rightarrow> snd t)"

definition p_next :: "tokens \<Rightarrow> tokens" where
  "p_next ts = tl ts"

definition nTok :: "tokens \<Rightarrow> token" where
  "nTok ts = cTok (p_next ts)"

text \<open>
  The result of a parsing function is the node and the position after it. \<open>None\<close> stands
  for a reported syntax error (the parser then skips to the next statement) and for the
  constructs that are not modelled: index expressions, interpolated strings, array and map
  literals, transformations, \<^verbatim>\<open>exists\<close>, \<^verbatim>\<open>sizeof\<close>, \<^verbatim>\<open>is\<close> and the operating-system
  test. The argument \<open>pb\<close> is \<^verbatim>\<open>parseBinaryExpr\<close>, for the expression between parentheses.
\<close>

definition parseOperand ::
  "tokenTable \<Rightarrow> (bool \<Rightarrow> nat \<Rightarrow> tokens \<Rightarrow> ('f node \<times> tokens) option) \<Rightarrow> tokens
     \<Rightarrow> ('f node \<times> tokens) option" where
  "parseOperand tt pb ts =
     (if cTok ts = IDENT then
        (if nTok ts = LBRACK then None else Some (Ident (cLit ts), p_next ts))
      else if cTok ts = INTEGER \<or> cTok ts = FLOAT \<or> cTok ts = STRING \<or> cTok ts = BOOLEAN then
        Some (BasicLit (cTok ts) (cLit ts), p_next ts)
      else if cTok ts = LPAREN then
        (case pb False (LowestPrec tt + 1) ts of
           None \<Rightarrow> None
         | Some (inx, ts1) \<Rightarrow>
             if cTok ts1 \<noteq> RPAREN then None else Some (Paren inx, p_next ts1))
      else None)"

definition parseTypeCaseExpr ::
  "tokenTable \<Rightarrow> (bool \<Rightarrow> nat \<Rightarrow> tokens \<Rightarrow> ('f node \<times> tokens) option) \<Rightarrow> tokens
     \<Rightarrow> ('f node \<times> tokens) option" where
  "parseTypeCaseExpr tt pb ts =
     (let to = cTok ts; ts1 = p_next ts
      in if cTok ts1 = LPAREN then
           (case pb False (LowestPrec tt + 1) ts1 of
              None \<Rightarrow> None
            | Some (x, ts2) \<Rightarrow>
                if cTok ts2 \<noteq> RPAREN then None else Some (TypeCast x to, p_next ts2))
         else None)"

definition parseUnaryExpr ::
  "tokenTable \<Rightarrow> (bool \<Rightarrow> nat \<Rightarrow> tokens \<Rightarrow> ('f node \<times> tokens) option) \<Rightarrow> tokens
     \<Rightarrow> ('f node \<times> tokens) option" where
  "parseUnaryExpr tt pb ts =
     (if cTok ts = ADD \<or> cTok ts = SUB \<or> cTok ts = NOT \<or> cTok ts = XOR \<or> cTok ts = FD then
        (let op = cTok ts
         in case parseOperand tt pb (p_next ts) of
              None \<Rightarrow> None
            | Some (opr, ts1) \<Rightarrow>
                if cTok ts1 = EXISTS \<and> op = FD then None else Some (Unary op opr, ts1))
      else if cTok ts = TINTEGER \<or> cTok ts = TFLOAT \<or> cTok ts = TSTRING \<or> cTok ts = TBOOLEAN then
        parseTypeCaseExpr tt pb ts
      else
        (case parseOperand tt pb ts of
           None \<Rightarrow> None
         | Some (x, ts1) \<Rightarrow> if cTok ts1 = EXISTS then None else Some (x, ts1)))"

definition parseTernaryExpr ::
  "tokenTable \<Rightarrow> (bool \<Rightarrow> nat \<Rightarrow> tokens \<Rightarrow> ('f node \<times> tokens) option) \<Rightarrow> 'f node \<Rightarrow> tokens
     \<Rightarrow> ('f node \<times> tokens) option" where
  "parseTernaryExpr tt pb x ts =
     (case pb False (LowestPrec tt + 1) ts of
        None \<Rightarrow> None
      | Some (tx, ts1) \<Rightarrow>
          if cTok ts1 = COLON then
            (case pb False (LowestPrec tt + 1) ts1 of
               None \<Rightarrow> None
             | Some (fx, ts2) \<Rightarrow> Some (Conditional x tx fx, ts2))
          else None)"

definition parseFallbackExpr ::
  "tokenTable \<Rightarrow> (bool \<Rightarrow> nat \<Rightarrow> tokens \<Rightarrow> ('f node \<times> tokens) option) \<Rightarrow> 'f node \<Rightarrow> tokens
     \<Rightarrow> ('f node \<times> tokens) option" where
  "parseFallbackExpr tt pb x ts =
     (case pb False (LowestPrec tt + 1) ts of
        None \<Rightarrow> None
      | Some (d, ts1) \<Rightarrow> Some (Fallback x d, ts1))"

text \<open>
  \<^verbatim>\<open>parseBinaryExpr\<close> and its \<^verbatim>\<open>for\<close> loop (\<open>binaryLoop\<close>, with the loop's variables
  \<^verbatim>\<open>x\<close> and \<^verbatim>\<open>prevNode\<close>). On entry the current token is the one before the expression.
  The first argument bounds the depth of the calls and the iterations of the loop;
  \<open>None\<close> is returned when it is reached.
\<close>

fun parseBinaryExpr :: "tokenTable \<Rightarrow> nat \<Rightarrow> bool \<Rightarrow> nat \<Rightarrow> tokens \<Rightarrow> ('f node \<times> tokens) option"
  and binaryLoop ::
    "tokenTable \<Rightarrow> nat \<Rightarrow> bool \<Rightarrow> nat \<Rightarrow> 'f node \<Rightarrow> 'f node option \<Rightarrow> tokens \<Rightarrow> ('f node \<times> tokens) option"
where
  "parseBinaryExpr tt 0 isChaining priority ts = None"
| "parseBinaryExpr tt (Suc n) isChaining priority ts0 =
     (let ts = p_next ts0
      in if cTok ts = IDENT \<and> (nTok ts = LPAREN \<or> nTok ts = EXISTS) then None
         else
           (case parseUnaryExpr tt (\<lambda>ch pr ts'. parseBinaryExpr tt n ch pr ts') ts of
              None \<Rightarrow> None
            | Some (x, ts1) \<Rightarrow>
                if isChaining \<and> IsComparison tt (cTok ts1) then Some (x, ts1)
                else binaryLoop tt n isChaining priority x None ts1))"
| "binaryLoop tt 0 isChaining priority x prevNode ts = None"
| "binaryLoop tt (Suc n) isChaining priority x prevNode ts =
     (let op = cTok ts; oprec = Precedence tt op
      in if oprec < priority \<or> (isChaining \<and> IsComparison tt op) then Some (x, ts)
         else if op = QES then
           (case parseTernaryExpr tt (\<lambda>ch pr ts'. parseBinaryExpr tt n ch pr ts') x ts of
              None \<Rightarrow> None
            | Some (x1, ts1) \<Rightarrow> binaryLoop tt n isChaining priority x1 prevNode ts1)
         else if op = DQS then
           (case parseFallbackExpr tt (\<lambda>ch pr ts'. parseBinaryExpr tt n ch pr ts') x ts of
              None \<Rightarrow> None
            | Some (x1, ts1) \<Rightarrow> binaryLoop tt n isChaining priority x1 prevNode ts1)
         else if op = IS then None
         else
           (let isComp = IsComparison tt op
            in case parseBinaryExpr tt n (isChaining \<or> isComp) (oprec + 1) ts of
                 None \<Rightarrow> None
               | Some (y, ts1) \<Rightarrow>
                   (let ly = y;
                        y1 = (case prevNode of Some pn \<Rightarrow> Binary pn op y | None \<Rightarrow> y);
                        op1 = (case prevNode of Some pn \<Rightarrow> LAND | None \<Rightarrow> op);
                        x1 = Binary x op1 y1;
                        prevNode1 = (if isComp \<and> IsComparison tt (cTok ts1) then Some ly else None)
                    in binaryLoop tt n isChaining priority x1 prevNode1 ts1)))"


declare parseBinaryExpr.simps [simp del] binaryLoop.simps [simp del]


section \<open>A runtime for the examples\<close>

text \<open>
  A concrete runtime, used where a theorem is stated at a closed input: \<^verbatim>\<open>float64\<close>
  values as exact rationals (IEEE arithmetic agrees with them on the small integral
  values the examples use), the text conversions on integral values only, an
  environment whose only variable is \<^verbatim>\<open>HOME=/root\<close>, and the growth of a slice as
  \<^verbatim>\<open>runtime.growslice\<close> computes it below 256 elements (the needed length when it is more
  than twice the capacity, else twice the capacity; the rounding up to an allocation size
  class changes nothing for up to 16 elements of type \<^verbatim>\<open>any\<close>).
\<close>

definition exampleRuntime :: "rat runtime" where
  "exampleRuntime =
     \<lparr>fadd = (\<lambda>a b. a + b), fsub = (\<lambda>a b. a - b), fmul = (\<lambda>a b. a * b), fquo = (\<lambda>a b. a / b),
      fneg = (\<lambda>a. - a), feq = (\<lambda>a b. a = b), flt = (\<lambda>a b. a < b), fle = (\<lambda>a b. a \<le> b),
      ofInt64 = (\<lambda>i. of_int (sint i)),
      toInt64 = (\<lambda>f. word_of_int (sgn \<lfloor>f\<rfloor> * \<lfloor>\<bar>f\<bar>\<rfloor>)),
      ParseFloat = (\<lambda>s. case ParseInt s of Inr i \<Rightarrow> Some (of_int (sint i)) | Inl e \<Rightarrow> None),
      FormatFloat = (\<lambda>f. FormatInt (word_of_int \<lfloor>f\<rfloor>)),
      Getenv = (\<lambda>name. if name = ''HOME'' then ''/root'' else []),
      growslice = (\<lambda>c m. if 2 * c < m then m else 2 * c)\<rparr>"

text \<open>
  A token table for the examples, with the usual precedences of the binary operators
  (\<open>||\<close> lowest, then \<open>&&\<close>, the comparisons, the additive and the multiplicative
  operators) and the six relational operators as comparisons.
\<close>

definition exampleTable :: tokenTable where
  "exampleTable =
     \<lparr>Precedence = (\<lambda>t. if t = LOR then 1 else if t = LAND then 2
                          else if EQL \<le> t \<and> t \<le> GEQ then 3
                          else if t = ADD \<or> t = SUB \<or> t = OR \<or> t = XOR then 4
                          else if t = MUL \<or> t = QUO \<or> t = REM \<or> t = SHL \<or> t = SHR \<or> t = AND then 5
                          else 0),
      IsComparison = (\<lambda>t. EQL \<le> t \<and> t \<le> GEQ),
      LowestPrec = 0\<rparr>"

section \<open>Running every finalize target, as the specification words it\<close>

text \<open>
  Written from the specification, to be compared with the deferred function of
  \<^verbatim>\<open>ExecuteWithTarget\<close>: every target of the list is executed in turn, whatever the ones
  before it returned; the results are collected in order. \<open>warningsOf\<close> is the warning
  printed for each result that is an error.
\<close>

fun executeEach ::
  "'f runtime \<Rightarrow> nat \<Rightarrow> 'f Target list \<Rightarrow> 'f xContext \<Rightarrow> (unit res list \<times> 'f xContext) option" where
  "executeEach rt n [] xc = Some ([], xc)"
| "executeEach rt n (t # ts) xc =
     (case Target_Execute rt n (Some t) [] xc of
        None \<Rightarrow> None
      | Some (x, xc1) \<Rightarrow>
          (case executeEach rt n ts xc1 of
             None \<Rightarrow> None
           | Some (xs, xc2) \<Rightarrow> Some (x # xs, xc2)))"

fun warningsOf :: "unit res list \<Rightarrow> message list" where
  "warningsOf [] = []"
| "warningsOf (Err e # rs) = FinalizeWarning e # warningsOf rs"
| "warningsOf (r # rs) = warningsOf rs"

definition noPanic :: "unit res \<Rightarrow> bool" where
  "noPanic r = (case r of Panic p \<Rightarrow> False | _ \<Rightarrow> True)"

section \<open>Example programs\<close>

text \<open>
  A context whose only variable is \<^verbatim>\<open>x = 5\<close>, and one whose only variable is \<^verbatim>\<open>acc = []\<close>
  (the slice of length and capacity 0 that the empty array literal makes).
\<close>

definition xcX5 :: "rat xContext" where
  "xcX5 = \<lparr>scope = [\<lparr>hasChild = False, returnResult = None, vars = [''x'' \<mapsto> VInt 5]\<rparr>],
            loopsLabel = [], continueAt = -1, breakAt = -1, loops = [], heap = []\<rparr>"

definition xcAcc :: "rat xContext" where
  "xcAcc = \<lparr>scope = [\<lparr>hasChild = False, returnResult = None,
                       vars = [''acc'' \<mapsto> VArray (Slice 0 0 0)]\<rparr>],
            loopsLabel = [], continueAt = -1, breakAt = -1, loops = [], heap = [[]]\<rparr>"

text \<open>The elements of the array that an evaluation returns, and of the one that a variable holds.\<close>

definition resultElems :: "rat val res \<times> rat xContext \<Rightarrow> rat val list option" where
  "resultElems r =
     (case r of
        (Ok (VArray s), xc) \<Rightarrow> Some (sliceElems xc s)
      | _ \<Rightarrow> None)"

definition arrayOf :: "rat xContext \<Rightarrow> string \<Rightarrow> rat val list" where
  "arrayOf xc name = sliceElems xc (asSlice (fst (ctxGetVariable exampleRuntime xc name)))"

text \<open>
  The loop \<^verbatim>\<open>for i in a..b { acc += i }\<close> with the given inclusion flags, which appends each
  value of the index to the array \<^verbatim>\<open>acc\<close>; and the elements of \<^verbatim>\<open>acc\<close> after a
  statement.
\<close>

definition recordLoop :: "string \<Rightarrow> bool \<Rightarrow> string \<Rightarrow> bool \<Rightarrow> rat stmt" where
  "recordLoop a ai b bi =
     ForStatement [] ''i'' (Some (Interval (BasicLit INTEGER a) ai (BasicLit INTEGER b) bi None))
       [AssignStatement ''acc'' ADD_ASSIGN (Ident ''i'')]"

definition accAfter :: "rat sresult \<Rightarrow> rat val list option" where
  "accAfter r =
     (case r of
        Some (Ok u, xc) \<Rightarrow> Some (arrayOf xc ''acc'')
      | _ \<Rightarrow> None)"

text \<open>
  After a statement: the elements of the arrays that the given variables hold, and the
  values of the variables with the store.
\<close>

definition arraysAfter :: "rat sresult \<Rightarrow> string list \<Rightarrow> rat val list list option" where
  "arraysAfter r names =
     (case r of
        Some (Ok u, xc) \<Rightarrow> Some (map (arrayOf xc) names)
      | _ \<Rightarrow> None)"

definition valuesAfter :: "rat sresult \<Rightarrow> string list \<Rightarrow> (rat val list \<times> rat val list list) option" where
  "valuesAfter r names =
     (case r of
        Some (Ok u, xc) \<Rightarrow> Some (map (\<lambda>name. fst (ctxGetVariable exampleRuntime xc name)) names, heap xc)
      | _ \<Rightarrow> None)"

text \<open>The statements \<^verbatim>\<open>x = [1, 2] + 3\<close>, \<^verbatim>\<open>y = x + 4\<close> and \<^verbatim>\<open>z = x + 5\<close>.\<close>

definition shareInsts :: "rat stmt list" where
  "shareInsts =
     [AssignStatement ''x'' ASSIGN
        (Binary (ArrayLiteral [BasicLit INTEGER ''1'', BasicLit INTEGER ''2'']) ADD
                (BasicLit INTEGER ''3'')),
      AssignStatement ''y'' ASSIGN (Binary (Ident ''x'') ADD (BasicLit INTEGER ''4'')),
      AssignStatement ''z'' ASSIGN (Binary (Ident ''x'') ADD (BasicLit INTEGER ''5''))]"

text \<open>A program with the single target \<^verbatim>\<open>build\<close>, whose body is \<^verbatim>\<open>x = 1\<close>.\<close>

definition buildCook :: "rat cook" where
  "buildCook =
     \<lparr>targets = [''build'' \<mapsto> 0],
      targetIndexes =
        [\<lparr>tAll = False, tInsts = [AssignStatement ''x'' ASSIGN (BasicLit INTEGER ''1'')],
          tName = ''build''\<rparr>],
      initializeTargets = [], finalizeTargets = [], targetAll = None, cInsts = Some []\<rparr>"

text \<open>
  A program whose target \<^verbatim>\<open>build\<close> fails (it casts \<^verbatim>\<open>"abc"\<close> to an integer), with two
  \<^verbatim>\<open>finalize\<close> targets: \<^verbatim>\<open>z += 1\<close>, which fails since \<^verbatim>\<open>z\<close> does not exist, and
  \<^verbatim>\<open>done = 1\<close>.
\<close>

definition failingCook :: "rat cook" where
  "failingCook =
     \<lparr>targets = [''build'' \<mapsto> 0],
      targetIndexes =
        [\<lparr>tAll = False,
          tInsts = [AssignStatement ''y'' ASSIGN (TypeCast (BasicLit STRING ''abc'') TINTEGER)],
          tName = ''build''\<rparr>],
      initializeTargets = [],
      finalizeTargets =
        [\<lparr>tAll = False, tInsts = [AssignStatement ''z'' ADD_ASSIGN (BasicLit INTEGER ''1'')],
          tName = ''finalize''\<rparr>,
         \<lparr>tAll = False, tInsts = [AssignStatement ''done'' ASSIGN (BasicLit INTEGER ''1'')],
          tName = ''finalize''\<rparr>],
      targetAll = None, cInsts = Some []\<rparr>"

text \<open>
  The same program with the \<^verbatim>\<open>finalize\<close> targets \<^verbatim>\<open>q = 1 % 0\<close>, which panics (the integer
  division by zero is a run-time panic of Go), and \<^verbatim>\<open>done = 1\<close>.
\<close>

definition panicCook :: "rat cook" where
  "panicCook =
     \<lparr>targets = [''build'' \<mapsto> 0],
      targetIndexes =
        [\<lparr>tAll = False,
          tInsts = [AssignStatement ''y'' ASSIGN (TypeCast (BasicLit STRING ''abc'') TINTEGER)],
          tName = ''build''\<rparr>],
      initializeTargets = [],
      finalizeTargets =
        [\<lparr>tAll = False,
          tInsts = [AssignStatement ''q'' ASSIGN
                      (Binary (BasicLit INTEGER ''1'') REM (BasicLit INTEGER ''0''))],
          tName = ''finalize''\<rparr>,
         \<lparr>tAll = False, tInsts = [AssignStatement ''done'' ASSIGN (BasicLit INTEGER ''1'')],
          tName = ''finalize''\<rparr>],
      targetAll = None, cInsts = Some []\<rparr>"

text \<open>The tokens of \<^verbatim>\<open>= 2 < 5 < 3\<close> and of \<^verbatim>\<open>= 2 < x < 3\<close>, each followed by a line feed.\<close>

definition chainTokens :: tokens where
  "chainTokens =
     [(ASSIGN, ''=''), (INTEGER, ''2''), (LSS, ''<''), (INTEGER, ''5''), (LSS, ''<''),
      (INTEGER, ''3''), (LF, [])]"

definition chainTokensX :: tokens where
  "chainTokensX =
     [(ASSIGN, ''=''), (INTEGER, ''2''), (LSS, ''<''), (IDENT, ''x''), (LSS, ''<''),
      (INTEGER, ''3''), (LF, [])]"


section \<open>Properties\<close>

subsection \<open>Evaluation rules\<close>

lemmas strconv_defs = ParseInt_def ParseUint_def isDigit_def digitVal_def ParseBool_def

lemmas op_defs = binaryOp_def addOperator_def opOnArray_def numOperator_def numInt_def
  numFloat_def logicOperator_def unaryOp_def incDecOp_def typeCast_def tokenKind_def
  BasicLit_Evaluate_def

lemmas slice_defs = appendSlice_def makeSlice_def sliceLiteral_def sliceElems_def

lemmas ctx_defs = ctxGetVariable_def ctxSetVariable_def newScope_def tryEnv_def incDecStore_def
  EnterBlock_def ExitBlock_def ShouldBreak_def currentLoop_def ResetBreakContinue_def
  renewContext_def

lemmas stmt_defs = AssignStatement_Evaluate_def Ident_Set_def ExprWrapperStatement_Evaluate_def
  executeInsts_def ForStatement_Evaluate_def deferExitBlock_def intervalRange_def
  intervalOperand_def Target_Execute_def GetTarget_def runRequested_def ExecuteWithTarget_def
  word_sless_alt word_sle_eq

lemma numeral_fuel: "numeral k = Suc (pred_numeral k)"
  by (simp add: numeral_eq_Suc)

lemma Statement_Evaluate_fuel:
  assumes "n = Suc m"
  shows "Statement_Evaluate rt n (AssignStatement name op V) xc =
           Some (AssignStatement_Evaluate rt name op V xc)"
    and "Statement_Evaluate rt n (BreakContinueStatement label op) xc =
           Some (BreakContinueStatement_Evaluate label op xc)"
    and "Statement_Evaluate rt n (ExprWrapperStatement X) xc =
           Some (ExprWrapperStatement_Evaluate rt X xc)"
    and "Statement_Evaluate rt n (ReturnStatement X) xc = Some (ReturnStatement_Evaluate rt X xc)"
    and "Statement_Evaluate rt n (ForStatement Label I Rng Insts) xc =
           ForStatement_Evaluate rt m (Statement_Evaluate rt m) Label I Rng Insts xc"
    and "Statement_Evaluate rt n (OtherStmt f) xc = Some (f xc)"
  using assms by (simp_all add: Statement_Evaluate.simps)

lemma rangeLoop_fuel:
  assumes "n = Suc m"
  shows "rangeLoop n cond nxt wrap unwrap body I i xc =
     (if \<not> cond i then Some (Ok (), xc)
      else case ctxSetVariable xc I (wrap i) of
             Err e \<Rightarrow> Some (Err e, xc)
           | Panic p \<Rightarrow> Some (Panic p, xc)
           | Ok xc1 \<Rightarrow>
               (case body xc1 of
                  None \<Rightarrow> None
                | Some (Err e, xc2) \<Rightarrow> Some (Err e, xc2)
                | Some (Panic p, xc2) \<Rightarrow> Some (Panic p, xc2)
                | Some (Ok (nb, ni), xc2) \<Rightarrow>
                    if nb then Some (Ok (), xc2)
                    else rangeLoop m cond nxt wrap unwrap body I (nxt (unwrap ni)) xc2))"
  using assms by simp

lemmas fuel_simps =
  Statement_Evaluate_fuel [OF numeral_fuel] Statement_Evaluate_fuel [OF refl]
  rangeLoop_fuel [OF numeral_fuel] rangeLoop_fuel [OF refl]

lemma exampleRuntime_growslice:
  "growslice exampleRuntime c m = (if 2 * c < m then m else 2 * c)"
  by (simp add: exampleRuntime_def)

lemmas run_simps = fuel_simps op_defs slice_defs strconv_defs stmt_defs ctx_defs Let_def
  exampleRuntime_growslice arrayOf_def

subsection \<open>Labeled break and continue\<close>

text \<open>
  Claim C3. In a context with a non-empty loop stack whose current loop has index \<open>l\<close>:
  a pending break at an index \<open>b \<le> l\<close> makes \<open>ShouldBreak\<close> true for either value of
  \<open>fromLoop\<close>; so does a pending continue at an index \<open>c < l\<close>; and a pending continue at
  \<open>l\<close> itself makes \<open>ShouldBreak\<close> true for \<open>fromLoop = False\<close> (the check of the block
  after each statement) and, with no break pending, false for \<open>fromLoop = True\<close> (the check
  of the loop after each iteration).
\<close>

theorem C3_ShouldBreak_labeled:
  assumes "loopsLabel xc \<noteq> []" and "currentLoop xc = l"
  shows "(0 \<le> breakAt xc \<and> breakAt xc \<le> l \<longrightarrow> ShouldBreak xc fromLoop)
       \<and> (0 \<le> continueAt xc \<and> continueAt xc < l \<longrightarrow> ShouldBreak xc fromLoop)
       \<and> (0 \<le> continueAt xc \<and> continueAt xc = l \<longrightarrow>
            ShouldBreak xc False \<and> (breakAt xc < 0 \<longrightarrow> \<not> ShouldBreak xc True))"
  using assms by (auto simp: ShouldBreak_def Let_def)

text \<open>
  Witness of C3: two nested loops (indexes 0 and 1, the inner one current) with a break
  pending at the outer loop, with a continue pending at the outer loop, and with a
  continue pending at the inner loop.
\<close>

theorem C3_ShouldBreak_labeled_witness:
  "ShouldBreak (renewContext\<lparr>loopsLabel := [''a'', ''b''], loops := [0, 1], breakAt := 0\<rparr>
                :: rat xContext) True
   \<and> ShouldBreak (renewContext\<lparr>loopsLabel := [''a'', ''b''], loops := [0, 1], continueAt := 0\<rparr>
                :: rat xContext) True
   \<and> ShouldBreak (renewContext\<lparr>loopsLabel := [''a'', ''b''], loops := [0, 1], continueAt := 1\<rparr>
                :: rat xContext) False
   \<and> \<not> ShouldBreak (renewContext\<lparr>loopsLabel := [''a'', ''b''], loops := [0, 1], continueAt := 1\<rparr>
                :: rat xContext) True"
  using
    C3_ShouldBreak_labeled [of "renewContext\<lparr>loopsLabel := [''a'', ''b''], loops := [0, 1], breakAt := 0\<rparr> :: rat xContext" 1 True]
    C3_ShouldBreak_labeled [of "renewContext\<lparr>loopsLabel := [''a'', ''b''], loops := [0, 1], continueAt := 0\<rparr> :: rat xContext" 1 True]
    C3_ShouldBreak_labeled [of "renewContext\<lparr>loopsLabel := [''a'', ''b''], loops := [0, 1], continueAt := 1\<rparr> :: rat xContext" 1 True]
  by (simp add: renewContext_def currentLoop_def)

subsection \<open>The operator \<open>+\<close>\<close>

text \<open>
  Counterexample to claim C5 as stated: the string \<^verbatim>\<open>"a"\<close> plus the array \<^verbatim>\<open>[1]\<close> is an
  array, of the elements \<^verbatim>\<open>"a"\<close> and 1, not a string (the array forms of \<open>+\<close> are tried
  first); a map plus a string is an error, since a map has no text; and a float plus a
  boolean is an error, not a float.
\<close>

theorem C5_string_plus_array_counterexample:
  "Evaluate exampleRuntime
      (Binary (BasicLit STRING ''a'') ADD (ArrayLiteral [BasicLit INTEGER ''1''])) renewContext
     = (Ok (VArray (Slice 2 2 2)),
        renewContext\<lparr>heap := [[VInt 1], [VString ''a''], [VString ''a'', VInt 1]]\<rparr>)
   \<and> sliceElems (renewContext\<lparr>heap := [[VInt 1], [VString ''a''], [VString ''a'', VInt 1 :: rat val]]\<rparr>)
        (Slice 2 2 2) = [VString ''a'', VInt 1]
   \<and> addOperator exampleRuntime renewContext (VMap []) (VString ''a'')
     = (Err (ErrConvert KString), renewContext)
   \<and> addOperator exampleRuntime renewContext (VFloat 1) (VBool True)
     = (Err (ErrConvert KFloat64), renewContext)"
  by (simp add: op_defs slice_defs strconv_defs renewContext_def exampleRuntime_def Let_def)

text \<open>
  Claim C5, amended. When neither operand of \<open>+\<close> is an array: if one operand is a string
  and the other a string, an integer, a float or a boolean, the result is the string of
  the left operand's text followed by the right operand's text, the text of a non-string
  being that of \<^verbatim>\<open>strconv\<close> (\<open>FormatInt\<close>, \<open>FormatFloat\<close>, \<open>FormatBool\<close>), whichever side
  the string is on; if one operand is a float and the other a float or an integer, the
  result is the float sum, an integer being converted first
  (\<open>Int64 a + Float64 b = float(a) + b\<close>); the sum of two integers is their (wrap-around)
  integer sum; and every other pair of operands is an error. No scalar case changes the
  context. When an operand is an array, the result is an array, whatever the other
  operand is.
\<close>

theorem C5_add_scalars:
  "addOperator rt xc (VString s) (VString t) = (Ok (VString (s @ t)), xc)
   \<and> addOperator rt xc (VString s) (VInt i) = (Ok (VString (s @ FormatInt i)), xc)
   \<and> addOperator rt xc (VInt i) (VString s) = (Ok (VString (FormatInt i @ s)), xc)
   \<and> addOperator rt xc (VString s) (VFloat f) = (Ok (VString (s @ FormatFloat rt f)), xc)
   \<and> addOperator rt xc (VFloat f) (VString s) = (Ok (VString (FormatFloat rt f @ s)), xc)
   \<and> addOperator rt xc (VString s) (VBool b) = (Ok (VString (s @ FormatBool b)), xc)
   \<and> addOperator rt xc (VBool b) (VString s) = (Ok (VString (FormatBool b @ s)), xc)
   \<and> addOperator rt xc (VInt a) (VFloat g) = (Ok (VFloat (fadd rt (ofInt64 rt a) g)), xc)
   \<and> addOperator rt xc (VFloat f) (VInt c) = (Ok (VFloat (fadd rt f (ofInt64 rt c))), xc)
   \<and> addOperator rt xc (VFloat f) (VFloat g) = (Ok (VFloat (fadd rt f g)), xc)
   \<and> addOperator rt xc (VInt a) (VInt c) = (Ok (VInt (a + c)), xc)
   \<and> (kindOf l \<noteq> KSlice \<and> kindOf r \<noteq> KSlice
        \<and> \<not> ((kindOf l = KString \<or> kindOf r = KString)
               \<and> kindOf l \<in> {KString, KInt64, KFloat64, KBool}
               \<and> kindOf r \<in> {KString, KInt64, KFloat64, KBool})
        \<and> \<not> ((kindOf l = KFloat64 \<or> kindOf r = KFloat64)
               \<and> kindOf l \<in> {KFloat64, KInt64} \<and> kindOf r \<in> {KFloat64, KInt64})
        \<and> \<not> (kindOf l = KInt64 \<and> kindOf r = KInt64) \<longrightarrow>
      (\<exists>e. addOperator rt xc l r = (Err e, xc)))
   \<and> (kindOf l = KSlice \<or> kindOf r = KSlice \<longrightarrow>
      (\<exists>sl xc'. addOperator rt xc l r = (Ok (VArray sl), xc')))"
proof -
  have ok: "addOperator rt xc (VString s) (VString t) = (Ok (VString (s @ t)), xc)
   \<and> addOperator rt xc (VString s) (VInt i) = (Ok (VString (s @ FormatInt i)), xc)
   \<and> addOperator rt xc (VInt i) (VString s) = (Ok (VString (FormatInt i @ s)), xc)
   \<and> addOperator rt xc (VString s) (VFloat f) = (Ok (VString (s @ FormatFloat rt f)), xc)
   \<and> addOperator rt xc (VFloat f) (VString s) = (Ok (VString (FormatFloat rt f @ s)), xc)
   \<and> addOperator rt xc (VString s) (VBool b) = (Ok (VString (s @ FormatBool b)), xc)
   \<and> addOperator rt xc (VBool b) (VString s) = (Ok (VString (FormatBool b @ s)), xc)
   \<and> addOperator rt xc (VInt a) (VFloat g) = (Ok (VFloat (fadd rt (ofInt64 rt a) g)), xc)
   \<and> addOperator rt xc (VFloat f) (VInt c) = (Ok (VFloat (fadd rt f (ofInt64 rt c))), xc)
   \<and> addOperator rt xc (VFloat f) (VFloat g) = (Ok (VFloat (fadd rt f g)), xc)
   \<and> addOperator rt xc (VInt a) (VInt c) = (Ok (VInt (a + c)), xc)"
    by (simp add: addOperator_def)
  have err: "kindOf l \<noteq> KSlice \<and> kindOf r \<noteq> KSlice
        \<and> \<not> ((kindOf l = KString \<or> kindOf r = KString)
               \<and> kindOf l \<in> {KString, KInt64, KFloat64, KBool}
               \<and> kindOf r \<in> {KString, KInt64, KFloat64, KBool})
        \<and> \<not> ((kindOf l = KFloat64 \<or> kindOf r = KFloat64)
               \<and> kindOf l \<in> {KFloat64, KInt64} \<and> kindOf r \<in> {KFloat64, KInt64})
        \<and> \<not> (kindOf l = KInt64 \<and> kindOf r = KInt64) \<longrightarrow>
      (\<exists>e. addOperator rt xc l r = (Err e, xc))"
    by (cases l; cases r) (simp_all add: addOperator_def)
  have arr: "kindOf l = KSlice \<or> kindOf r = KSlice \<longrightarrow>
      (\<exists>sl xc'. addOperator rt xc l r = (Ok (VArray sl), xc'))"
    by (auto simp: addOperator_def opOnArray_def Let_def split: prod.splits)
  from ok err arr show ?thesis
    by blast
qed

text \<open>
  Witness of C5: two booleans, and \<^verbatim>\<open>nil\<close> with a float, are errors; a boolean plus an
  array (the empty array at address 0) is an array.
\<close>

theorem C5_add_scalars_witness:
  "(\<exists>e. addOperator exampleRuntime renewContext (VBool True) (VBool False) = (Err e, renewContext))
   \<and> (\<exists>e. addOperator exampleRuntime renewContext VNil (VFloat 1) = (Err e, renewContext))
   \<and> (\<exists>sl xc'. addOperator exampleRuntime (renewContext\<lparr>heap := [[]]\<rparr>) (VBool True)
                  (VArray (Slice 0 0 0)) = (Ok (VArray sl), xc'))"
  using
    C5_add_scalars [where rt = exampleRuntime and xc = renewContext
      and l = "VBool True" and r = "VBool False"]
    C5_add_scalars [where rt = exampleRuntime and xc = renewContext
      and l = VNil and r = "VFloat 1"]
    C5_add_scalars [where rt = exampleRuntime and xc = "renewContext\<lparr>heap := [[]]\<rparr>"
      and l = "VBool True" and r = "VArray (Slice 0 0 0)"]
  by simp

subsection \<open>Arrays and the operator \<open>+\<close>\<close>

lemma addOperator_append_in_place:
  assumes "kindOf v \<noteq> KSlice" and "slen s < scap s"
  shows "addOperator rt xc (VArray s) v =
           (Ok (VArray (Slice (sarr s) (slen s + 1) (scap s))),
            xc\<lparr>heap := (heap xc)[sarr s := take (slen s) (heap xc ! sarr s) @ [v]
                                              @ drop (slen s + 1) (heap xc ! sarr s)]\<rparr>)"
  using assms by (simp add: addOperator_def opOnArray_def appendSlice_def Let_def)

text \<open>
  The elements of the three array sums are the ones expected, for slices that are in the
  store: the elements of the left operand followed by those of the right one, a scalar
  counting as one element.
\<close>

lemma addOperator_array_elems:
  assumes "sarr s < length (heap xc)" and "slen s \<le> length (heap xc ! sarr s)"
  shows "kindOf v \<noteq> KSlice \<Longrightarrow>
           \<exists>r xc'. addOperator rt xc (VArray s) v = (Ok (VArray r), xc')
                    \<and> sliceElems xc' r = sliceElems xc s @ [v]"
    and "kindOf v \<noteq> KSlice \<Longrightarrow>
           \<exists>r xc'. addOperator rt xc v (VArray s) = (Ok (VArray r), xc')
                    \<and> sliceElems xc' r = v # sliceElems xc s"
    and "sarr t < length (heap xc) \<Longrightarrow> slen t \<le> length (heap xc ! sarr t) \<Longrightarrow>
           \<exists>r xc'. addOperator rt xc (VArray s) (VArray t) = (Ok (VArray r), xc')
                    \<and> sliceElems xc' r = sliceElems xc s @ sliceElems xc t"
  using assms
  by (auto simp: addOperator_def opOnArray_def appendSlice_def sliceLiteral_def sliceElems_def
        Let_def nth_append)

lemma array_sum_examples:
  "resultElems (Evaluate exampleRuntime
      (Binary (ArrayLiteral [BasicLit INTEGER ''1'', BasicLit INTEGER ''2'']) ADD
              (ArrayLiteral [BasicLit INTEGER ''3'', BasicLit INTEGER ''4''])) renewContext)
     = Some [VInt 1, VInt 2, VInt 3, VInt 4]
   \<and> resultElems (Evaluate exampleRuntime
      (Binary (BasicLit INTEGER ''1'') ADD
              (ArrayLiteral [BasicLit INTEGER ''2'', BasicLit INTEGER ''3''])) renewContext)
     = Some [VInt 1, VInt 2, VInt 3]
   \<and> resultElems (Evaluate exampleRuntime
      (Binary (ArrayLiteral [BasicLit INTEGER ''2'', BasicLit INTEGER ''3'']) ADD
              (BasicLit INTEGER ''1'')) renewContext)
     = Some [VInt 2, VInt 3, VInt 1]"
  by (simp add: resultElems_def renewContext_def op_defs slice_defs strconv_defs Let_def
        exampleRuntime_growslice)

text \<open>
  Claim C6, on the code: the statements \<^verbatim>\<open>x = [1, 2] + 3\<close>, \<^verbatim>\<open>y = x + 4\<close> and
  \<^verbatim>\<open>z = x + 5\<close>. After the first two, \<^verbatim>\<open>y\<close> is \<open>[1, 2, 3, 4]\<close>. The third one changes
  \<^verbatim>\<open>y\<close> to \<open>[1, 2, 3, 5]\<close>: \<^verbatim>\<open>x\<close> has the capacity 4 for its 3 elements, so that
  \<^verbatim>\<open>x + 4\<close> and \<^verbatim>\<open>x + 5\<close> are no new arrays but slices of the backing array of \<^verbatim>\<open>x\<close>
  (the array at address 1 of the store), and the second addition overwrites the element
  that the first one wrote.
\<close>

theorem C6_append_shares_backing_array:
  "arraysAfter (BlockStatement_Evaluate (Statement_Evaluate exampleRuntime 1) (take 2 shareInsts)
                  renewContext) [''x'', ''y'']
     = Some [[VInt 1, VInt 2, VInt 3], [VInt 1, VInt 2, VInt 3, VInt 4]]
   \<and> arraysAfter (BlockStatement_Evaluate (Statement_Evaluate exampleRuntime 1) shareInsts
                    renewContext) [''x'', ''y'', ''z'']
     = Some [[VInt 1, VInt 2, VInt 3], [VInt 1, VInt 2, VInt 3, VInt 5],
             [VInt 1, VInt 2, VInt 3, VInt 5]]
   \<and> valuesAfter (BlockStatement_Evaluate (Statement_Evaluate exampleRuntime 1) shareInsts
                    renewContext) [''x'', ''y'', ''z'']
     = Some ([VArray (Slice 1 3 4), VArray (Slice 1 4 4), VArray (Slice 1 4 4)],
             [[VInt 1, VInt 2], [VInt 1, VInt 2, VInt 3, VInt 5]])"
  by (simp add: arraysAfter_def valuesAfter_def shareInsts_def renewContext_def run_simps)

subsection \<open>Variables and the environment\<close>

lemma GetVariable_unbound:
  "\<forall>xs \<in> set sc. vars xs name = None \<Longrightarrow> GetVariable rt sc name = (VNil, False)"
  by (induction sc) (auto simp: tryEnv_def Let_def)

text \<open>
  Claim C8, on the code: the name \<^verbatim>\<open>HOME\<close> is bound in no scope of the chain and the
  environment has \<^verbatim>\<open>HOME=/root\<close>, and \<open>GetVariable\<close> returns \<^verbatim>\<open>nil\<close> of kind
  \<^verbatim>\<open>reflect.Invalid\<close> with \<^verbatim>\<open>fromEnv = false\<close>, not the string \<^verbatim>\<open>"/root"\<close>.
\<close>

theorem C8_env_fallback_returns_nil:
  "Getenv exampleRuntime ''HOME'' = ''/root''
   \<and> GetVariable exampleRuntime [newScope, newScope] ''HOME'' = (VNil, False)
   \<and> Evaluate exampleRuntime (Ident ''HOME'') renewContext = (Ok VNil, renewContext)"
  by (simp add: exampleRuntime_def ctx_defs)

subsection \<open>Type casts\<close>

text \<open>
  Claim C9, on the code: the text \<^verbatim>\<open>"42"\<close> is a valid decimal integer, and casting the
  string \<^verbatim>\<open>"42"\<close> to integer returns the error "cannot cast"; so does the cast of every
  string to integer.
\<close>

theorem C9_string_to_integer_cast_fails:
  "ParseInt ''42'' = Inr 42
   \<and> Evaluate rt (TypeCast (BasicLit STRING ''42'') TINTEGER) xc = (Err (ErrCast KInt64), xc)
   \<and> typeCast rt TINTEGER (VString s) = Err (ErrCast KInt64)"
  by (simp add: op_defs strconv_defs)

subsection \<open>Logical operators\<close>

text \<open>
  Claim C10. For \<open>L && R\<close> and \<open>L || R\<close>, when \<open>L\<close> evaluates to a boolean, \<open>R\<close> is
  evaluated next, whatever the boolean is: the context after the binary node is the one
  \<open>R\<close> leaves, an error of \<open>R\<close> is the error returned, and a boolean of \<open>R\<close> is combined
  with that of \<open>L\<close>.
\<close>

theorem C10_no_short_circuit:
  assumes "op = LAND \<or> op = LOR"
      and "Evaluate rt L xc = (Ok (VBool bl), xc1)"
      and "Evaluate rt R xc1 = (r, xc2)"
  shows "snd (Evaluate rt (Binary L op R) xc) = xc2
       \<and> (\<forall>e. r = Err e \<longrightarrow> fst (Evaluate rt (Binary L op R) xc) = Err e)
       \<and> (\<forall>br. r = Ok (VBool br) \<longrightarrow>
             fst (Evaluate rt (Binary L op R) xc)
               = Ok (VBool (if op = LAND then bl \<and> br else bl \<or> br)))"
  using assms by (auto simp: binaryOp_def split: res.splits)

text \<open>
  Witness of C10, with \<^verbatim>\<open>x = 5\<close>: \<open>false && (x++ == 6)\<close> is false and leaves \<^verbatim>\<open>x = 6\<close>;
  \<open>true || boolean(x)\<close> returns the error of the cast.
\<close>

theorem C10_no_short_circuit_witness:
  "Evaluate exampleRuntime
     (Binary (BasicLit BOOLEAN ''false'') LAND
        (Binary (IncDec INC (Ident ''x'')) EQL (BasicLit INTEGER ''6''))) xcX5
     = (Ok (VBool False),
        xcX5\<lparr>scope := [\<lparr>hasChild = False, returnResult = None, vars = [''x'' \<mapsto> VInt 6]\<rparr>]\<rparr>)
   \<and> Evaluate exampleRuntime
        (Binary (BasicLit BOOLEAN ''true'') LOR (TypeCast (Ident ''x'') TBOOLEAN)) xcX5
     = (Err (ErrCast KBool), xcX5)"
proof -
  have l1: "Evaluate exampleRuntime (BasicLit BOOLEAN ''false'') xcX5 = (Ok (VBool False), xcX5)"
    by (simp add: op_defs strconv_defs)
  have r1: "Evaluate exampleRuntime (Binary (IncDec INC (Ident ''x'')) EQL (BasicLit INTEGER ''6'')) xcX5
          = (Ok (VBool True),
             xcX5\<lparr>scope := [\<lparr>hasChild = False, returnResult = None, vars = [''x'' \<mapsto> VInt 6]\<rparr>]\<rparr>)"
    by (simp add: op_defs strconv_defs ctx_defs xcX5_def exampleRuntime_def)
  have l2: "Evaluate exampleRuntime (BasicLit BOOLEAN ''true'') xcX5 = (Ok (VBool True), xcX5)"
    by (simp add: op_defs strconv_defs)
  have r2: "Evaluate exampleRuntime (TypeCast (Ident ''x'') TBOOLEAN) xcX5 = (Err (ErrCast KBool), xcX5)"
    by (simp add: op_defs ctx_defs xcX5_def)
  from C10_no_short_circuit [OF _ l1 r1, of LAND] C10_no_short_circuit [OF _ l2 r2, of LOR]
  show ?thesis
    by (auto simp add: prod_eq_iff simp del: Evaluate.simps)
qed

subsection \<open>Intervals\<close>

text \<open>
  Claim C4, on the code: in the interval \<open>(2..1)\<close>, exclusive at both ends, the
  exclusive end 1 is not moved one step inward (to 2) but outward, to 0. The start is
  moved first, from 2 to 1, by \<^verbatim>\<open>ia -= st\<close>, and the test \<^verbatim>\<open>ia > ib\<close> that decides in
  which direction the end is moved then reads this moved start: it is false, and the end
  is moved downwards. The result is the triple \<open>(1, 0, 1)\<close>, and the loop over the
  interval runs with the indexes 1 and 0, neither of which is between the endpoints.
\<close>

theorem C4_exclusive_end_moved_outward:
  "Interval_Evaluate exampleRuntime
      (Interval (BasicLit INTEGER ''2'') False (BasicLit INTEGER ''1'') False None) xcAcc
     = (Ok (IntRange [1, 0, 1]), xcAcc)
   \<and> accAfter (Statement_Evaluate exampleRuntime 10 (recordLoop ''2'' False ''1'' False) xcAcc)
     = Some [VInt 1, VInt 0]"
  by (simp add: accAfter_def recordLoop_def xcAcc_def run_simps)

text \<open>
  Where the code does as the claim says. For integer operands \<open>A\<close>, \<open>B\<close> and an integer
  step (1 when there is none), and likewise when an operand is a float (all three are then
  taken as floats): when an endpoint is exclusive and \<open>A\<close> equals \<open>B\<close>, the result is the
  empty sequence; otherwise, when an endpoint is inclusive or the moved start is on the
  same side of \<open>B\<close> as \<open>A\<close>, the result is the triple of start, end and step in which an
  exclusive start is \<open>A\<close> moved by one step towards \<open>B\<close> and an exclusive end is \<open>B\<close>
  moved by one step towards \<open>A\<close>. The interval \<open>(1..10)\<close> is the triple \<open>(2, 9, 1)\<close> and
  its loop runs with the indexes \<open>2, 3, ..., 9\<close>; the interval of \<open>A = 5\<close> exclusive and
  \<open>B = 5\<close> inclusive is empty and its loop runs no iteration.
\<close>

lemma intervalRange_inward:
  "((\<not> AInc \<or> \<not> BInc) \<and> ia = ib \<longrightarrow>
      intervalRange rt AInc BInc (VInt ia) (VInt ib) (VInt st) = Ok (IntRange []))
   \<and> (\<not> ((\<not> AInc \<or> \<not> BInc) \<and> ia = ib)
        \<and> (AInc \<or> BInc \<or> (ib <s (if ib <s ia then ia - st else ia + st)) = (ib <s ia)) \<longrightarrow>
      intervalRange rt AInc BInc (VInt ia) (VInt ib) (VInt st) =
        Ok (IntRange [if AInc then ia else if ib <s ia then ia - st else ia + st,
                      if BInc then ib else if ib <s ia then ib + st else ib - st,
                      st]))
   \<and> ((kindOf a = KFloat64 \<or> kindOf b = KFloat64)
        \<and> (kindOf a = KFloat64 \<or> kindOf a = KInt64) \<and> (kindOf b = KFloat64 \<or> kindOf b = KInt64)
        \<and> convertToFloat rt a = Inr fa \<and> convertToFloat rt b = Inr fb
        \<and> convertToFloat rt step = Inr fs
        \<and> (\<not> AInc \<or> \<not> BInc) \<and> feq rt fa fb \<longrightarrow>
      intervalRange rt AInc BInc a b step = Ok (FloatRange []))
   \<and> ((kindOf a = KFloat64 \<or> kindOf b = KFloat64)
        \<and> (kindOf a = KFloat64 \<or> kindOf a = KInt64) \<and> (kindOf b = KFloat64 \<or> kindOf b = KInt64)
        \<and> convertToFloat rt a = Inr fa \<and> convertToFloat rt b = Inr fb
        \<and> convertToFloat rt step = Inr fs
        \<and> \<not> ((\<not> AInc \<or> \<not> BInc) \<and> feq rt fa fb)
        \<and> (AInc \<or> BInc
             \<or> flt rt fb (if flt rt fb fa then fsub rt fa fs else fadd rt fa fs) = flt rt fb fa) \<longrightarrow>
      intervalRange rt AInc BInc a b step =
        Ok (FloatRange [if AInc then fa else if flt rt fb fa then fsub rt fa fs else fadd rt fa fs,
                        if BInc then fb else if flt rt fb fa then fadd rt fb fs else fsub rt fb fs,
                        fs]))
   \<and> Interval_Evaluate rt
        (Interval (BasicLit INTEGER ''1'') False (BasicLit INTEGER ''10'') False None) xc
       = (Ok (IntRange [2, 9, 1]), xc)
   \<and> accAfter (Statement_Evaluate exampleRuntime 10 (recordLoop ''1'' False ''10'' False) xcAcc)
       = Some [VInt 2, VInt 3, VInt 4, VInt 5, VInt 6, VInt 7, VInt 8, VInt 9]
   \<and> Interval_Evaluate rt
        (Interval (BasicLit INTEGER ''5'') False (BasicLit INTEGER ''5'') True None) xc
       = (Ok (IntRange []), xc)
   \<and> accAfter (Statement_Evaluate exampleRuntime 10 (recordLoop ''5'' False ''5'' True) xcAcc)
       = Some []"
proof -
  have ints: "(\<not> AInc \<or> \<not> BInc) \<and> ia = ib \<longrightarrow>
      intervalRange rt AInc BInc (VInt ia) (VInt ib) (VInt st) = Ok (IntRange [])"
    by (simp add: intervalRange_def)
  have intt: "\<not> ((\<not> AInc \<or> \<not> BInc) \<and> ia = ib)
        \<and> (AInc \<or> BInc \<or> (ib <s (if ib <s ia then ia - st else ia + st)) = (ib <s ia)) \<longrightarrow>
      intervalRange rt AInc BInc (VInt ia) (VInt ib) (VInt st) =
        Ok (IntRange [if AInc then ia else if ib <s ia then ia - st else ia + st,
                      if BInc then ib else if ib <s ia then ib + st else ib - st,
                      st])"
    by (auto simp: intervalRange_def Let_def)
  have flts: "(kindOf a = KFloat64 \<or> kindOf b = KFloat64)
        \<and> (kindOf a = KFloat64 \<or> kindOf a = KInt64) \<and> (kindOf b = KFloat64 \<or> kindOf b = KInt64)
        \<and> convertToFloat rt a = Inr fa \<and> convertToFloat rt b = Inr fb
        \<and> convertToFloat rt step = Inr fs
        \<and> (\<not> AInc \<or> \<not> BInc) \<and> feq rt fa fb \<longrightarrow>
      intervalRange rt AInc BInc a b step = Ok (FloatRange [])"
    by (cases a; cases b) (auto simp: intervalRange_def Let_def)
  have fltt: "(kindOf a = KFloat64 \<or> kindOf b = KFloat64)
        \<and> (kindOf a = KFloat64 \<or> kindOf a = KInt64) \<and> (kindOf b = KFloat64 \<or> kindOf b = KInt64)
        \<and> convertToFloat rt a = Inr fa \<and> convertToFloat rt b = Inr fb
        \<and> convertToFloat rt step = Inr fs
        \<and> \<not> ((\<not> AInc \<or> \<not> BInc) \<and> feq rt fa fb)
        \<and> (AInc \<or> BInc
             \<or> flt rt fb (if flt rt fb fa then fsub rt fa fs else fadd rt fa fs) = flt rt fb fa) \<longrightarrow>
      intervalRange rt AInc BInc a b step =
        Ok (FloatRange [if AInc then fa else if flt rt fb fa then fsub rt fa fs else fadd rt fa fs,
                        if BInc then fb else if flt rt fb fa then fadd rt fb fs else fsub rt fb fs,
                        fs])"
    by (cases a; cases b) (auto simp: intervalRange_def Let_def)
  have e1: "Interval_Evaluate rt
        (Interval (BasicLit INTEGER ''1'') False (BasicLit INTEGER ''10'') False None) xc
       = (Ok (IntRange [2, 9, 1]), xc)"
    by (simp add: op_defs strconv_defs stmt_defs)
  have l1: "accAfter (Statement_Evaluate exampleRuntime 10 (recordLoop ''1'' False ''10'' False) xcAcc)
       = Some [VInt 2, VInt 3, VInt 4, VInt 5, VInt 6, VInt 7, VInt 8, VInt 9]"
    by (simp add: accAfter_def recordLoop_def xcAcc_def run_simps)
  have e2: "Interval_Evaluate rt
        (Interval (BasicLit INTEGER ''5'') False (BasicLit INTEGER ''5'') True None) xc
       = (Ok (IntRange []), xc)"
    by (simp add: op_defs strconv_defs stmt_defs)
  have l2: "accAfter (Statement_Evaluate exampleRuntime 10 (recordLoop ''5'' False ''5'' True) xcAcc)
       = Some []"
    by (simp add: accAfter_def recordLoop_def xcAcc_def run_simps)
  from ints intt flts fltt e1 l1 e2 l2 show ?thesis
    by blast
qed

subsection \<open>The scope of a target\<close>

lemma SetVariable_unbound_goes_to_outermost:
  assumes "sc \<noteq> []" and "kindOf v \<noteq> KInvalid"
      and "\<forall>xs \<in> set sc. vars xs name = None \<and> \<not> hasChild xs"
  shows "SetVariable sc name v =
           Ok (True, butlast sc @ [(last sc)\<lparr>vars := (vars (last sc))(name \<mapsto> v)\<rparr>])"
  using assms
proof (induction sc)
  case Nil
  then show ?case by simp
next
  case (Cons xs parent)
  show ?case
  proof (cases "parent = []")
    case True
    with Cons.prems show ?thesis by (simp add: fun_upd_def)
  next
    case False
    with Cons.prems Cons.IH show ?thesis by (simp add: fun_upd_def)
  qed
qed

text \<open>
  Claim C7, on the code: the program has the single target \<^verbatim>\<open>build\<close>, whose body is
  \<^verbatim>\<open>x = 1\<close>, and no top-level statement. After \<^verbatim>\<open>ExecuteWithTarget(nil, "build")\<close> the
  context is back in the global scope, and the global scope binds \<^verbatim>\<open>x\<close> to 1 (and the
  argument count \<^verbatim>\<open>"0"\<close> of the target to 0): the variable first assigned inside the
  target is visible in the global scope.
\<close>

theorem C7_target_variable_leaks:
  "ExecuteWithTarget exampleRuntime 5 buildCook [] [''build''] =
     Some (Ok (),
           renewContext\<lparr>scope := [\<lparr>hasChild = False, returnResult = None,
                                    vars = [''0'' \<mapsto> VInt 0, ''x'' \<mapsto> VInt 1]\<rparr>]\<rparr>,
           [])"
  by (simp add: buildCook_def run_simps)

subsection \<open>Finalize targets\<close>

lemma runFinalize_executeEach:
  "executeEach rt n fs xc = Some (rs, xc') \<Longrightarrow> list_all noPanic rs
     \<Longrightarrow> runFinalize rt n fs xc = Some (Ok (), xc', warningsOf rs) \<and> length rs = length fs"
proof (induction fs arbitrary: xc rs)
  case Nil
  then show ?case by simp
next
  case (Cons t ts)
  from Cons.prems(1) obtain x xc1 xs where
    t: "Target_Execute rt n (Some t) [] xc = Some (x, xc1)"
    and r: "executeEach rt n ts xc1 = Some (xs, xc')" and rs: "rs = x # xs"
    by (auto split: option.splits prod.splits)
  from Cons.prems(2) rs have np: "noPanic x" and nps: "list_all noPanic xs" by simp_all
  from Cons.IH[OF r nps] have ih: "runFinalize rt n ts xc1 = Some (Ok (), xc', warningsOf xs)"
    and len: "length xs = length ts" by simp_all
  show ?case
  proof (cases x)
    case (Ok u)
    with t ih len rs show ?thesis by simp
  next
    case (Err e)
    with t ih len rs show ?thesis by simp
  next
    case (Panic p)
    with np show ?thesis by (simp add: noPanic_def)
  qed
qed

lemma runRequested_single_error:
  "name \<noteq> ''all'' \<Longrightarrow>
   Target_Execute rt n (GetTarget c name) [] (fst (EnterBlock xc False [])) = Some (Err e, xc')
   \<Longrightarrow> runRequested rt n c [name] xc = Some (Err e, xc', [])"
  by (simp add: runRequested_def)

text \<open>
  Counterexample to claim C2 as stated: the requested target \<^verbatim>\<open>build\<close> fails with the
  error of its cast, and the first \<^verbatim>\<open>finalize\<close> target, \<^verbatim>\<open>q = 1 % 0\<close>, panics. The loop
  over the \<^verbatim>\<open>finalize\<close> targets runs in a deferred function that recovers from no
  panic: the call ends with the panic, not with the error of \<^verbatim>\<open>build\<close>, and the second
  \<^verbatim>\<open>finalize\<close> target is not executed (\<^verbatim>\<open>done\<close> is not set, where the same program with a
  first \<^verbatim>\<open>finalize\<close> target that returns an error sets it).
\<close>

theorem C2_finalize_panic_counterexample:
  "ExecuteWithTarget exampleRuntime 5 panicCook [] [''build''] =
     Some (Panic ''integer divide by zero'',
           renewContext\<lparr>scope := [newScope,
                                   \<lparr>hasChild = False, returnResult = None,
                                    vars = [''0'' \<mapsto> VInt 0]\<rparr>]\<rparr>,
           [])
   \<and> runRequested exampleRuntime 5 panicCook [''build''] renewContext =
     Some (Err (ErrCast KInt64),
           renewContext\<lparr>scope := [newScope,
                                   \<lparr>hasChild = False, returnResult = None,
                                    vars = [''0'' \<mapsto> VInt 0]\<rparr>]\<rparr>,
           [])"
  by (simp add: panicCook_def run_simps)

text \<open>
  Claim C2, amended. Take a call of \<open>ExecuteWithTarget\<close> that reaches the requested
  targets (the parameters are set, the top-level statements and the \<^verbatim>\<open>initialize\<close>
  targets succeed), in which the requested targets end with \<open>r\<close> (an error \<open>e\<close>, or
  success) and in which each \<^verbatim>\<open>finalize\<close> target, executed in turn from there, returns
  with an error or without, and does not panic. Then every \<^verbatim>\<open>finalize\<close> target is
  executed, in order, whatever the requested targets and the \<^verbatim>\<open>finalize\<close> targets before
  it returned; the call returns exactly \<open>r\<close>; and the errors of the \<^verbatim>\<open>finalize\<close> targets
  are printed as warnings and nothing more.
\<close>

theorem C2_finalize_always_runs:
  assumes pre: "setProgramArgs pargs renewContext = Ok xc0"
      and top: "(case cInsts c of
                   None \<Rightarrow> Some (Ok (), xc0)
                 | Some b \<Rightarrow> BlockStatement_Evaluate (Statement_Evaluate rt n) b xc0)
                = Some (Ok (), xc1)"
      and ini: "runInitialize rt n (initializeTargets c) xc1 = Some (Ok (), xc2)"
      and req: "runRequested rt n c names xc2 = Some (r, xc3, out)"
      and fin: "executeEach rt n (finalizeTargets c) xc3 = Some (rs, xc4)"
      and nop: "list_all noPanic rs"
  shows "ExecuteWithTarget rt n c pargs names = Some (r, xc4, out @ warningsOf rs)
       \<and> length rs = length (finalizeTargets c)"
proof -
  from runFinalize_executeEach[OF fin nop]
  have f: "runFinalize rt n (finalizeTargets c) xc3 = Some (Ok (), xc4, warningsOf rs)"
    and l: "length rs = length (finalizeTargets c)" by simp_all
  from pre top ini req f l show ?thesis
    by (simp add: ExecuteWithTarget_def)
qed

text \<open>
  Witness of C2: the target \<^verbatim>\<open>build\<close> fails with the error of its cast; the first
  \<^verbatim>\<open>finalize\<close> target fails too (its error is the warning printed) and the second one
  sets \<^verbatim>\<open>done = 1\<close>; the call returns the error of \<^verbatim>\<open>build\<close>.
\<close>

theorem C2_finalize_always_runs_witness:
  "ExecuteWithTarget exampleRuntime 5 failingCook [] [''build''] =
     Some (Err (ErrCast KInt64),
           renewContext\<lparr>scope := [newScope,
                                   \<lparr>hasChild = False, returnResult = None,
                                    vars = [''0'' \<mapsto> VInt 0, ''done'' \<mapsto> VInt 1]\<rparr>]\<rparr>,
           [FinalizeWarning (ErrNoVariable ''z'')])"
proof -
  let ?xc3 = "renewContext\<lparr>scope := [newScope,
                 \<lparr>hasChild = False, returnResult = None, vars = [''0'' \<mapsto> VInt 0]\<rparr>]\<rparr> :: rat xContext"
  let ?xc4 = "renewContext\<lparr>scope := [newScope,
                 \<lparr>hasChild = False, returnResult = None,
                  vars = [''0'' \<mapsto> VInt 0, ''done'' \<mapsto> VInt 1]\<rparr>]\<rparr> :: rat xContext"
  have pre: "setProgramArgs [] renewContext = Ok (renewContext :: rat xContext)"
    by simp
  have top: "(case cInsts failingCook of
                None \<Rightarrow> Some (Ok (), renewContext)
              | Some b \<Rightarrow> BlockStatement_Evaluate (Statement_Evaluate exampleRuntime 5) b renewContext)
             = Some (Ok (), renewContext)"
    by (simp add: failingCook_def)
  have ini: "runInitialize exampleRuntime 5 (initializeTargets failingCook) renewContext
               = Some (Ok (), renewContext)"
    by (simp add: failingCook_def)
  have req: "runRequested exampleRuntime 5 failingCook [''build''] renewContext
               = Some (Err (ErrCast KInt64), ?xc3, [])"
    by (simp add: failingCook_def run_simps)
  have fin: "executeEach exampleRuntime 5 (finalizeTargets failingCook) ?xc3
               = Some ([Err (ErrNoVariable ''z''), Ok ()], ?xc4)"
    by (simp add: failingCook_def run_simps)
  have nop: "list_all noPanic [Err (ErrNoVariable ''z''), Ok ()]"
    by (simp add: noPanic_def)
  from C2_finalize_always_runs [OF pre top ini req fin nop] show ?thesis
    by simp
qed

subsection \<open>Chained comparisons\<close>

lemma parseBinaryExpr_fuel:
  assumes "n = Suc m"
  shows "parseBinaryExpr tt n isChaining priority (t # ts0) =
     (let ts = p_next (t # ts0)
      in if cTok ts = IDENT \<and> (nTok ts = LPAREN \<or> nTok ts = EXISTS) then None
         else
           (case parseUnaryExpr tt (parseBinaryExpr tt m) ts of
              None \<Rightarrow> None
            | Some (x, ts1) \<Rightarrow>
                if isChaining \<and> IsComparison tt (cTok ts1) then Some (x, ts1)
                else binaryLoop tt m isChaining priority x None ts1))"
  using assms by (simp add: parseBinaryExpr.simps)

lemma binaryLoop_fuel:
  assumes "n = Suc m"
  shows "binaryLoop tt n isChaining priority x prevNode (t # ts0) =
     (let ts = t # ts0; op = cTok ts; oprec = Precedence tt op
      in if oprec < priority \<or> (isChaining \<and> IsComparison tt op) then Some (x, ts)
         else if op = QES then
           (case parseTernaryExpr tt (parseBinaryExpr tt m) x ts of
              None \<Rightarrow> None
            | Some (x1, ts1) \<Rightarrow> binaryLoop tt m isChaining priority x1 prevNode ts1)
         else if op = DQS then
           (case parseFallbackExpr tt (parseBinaryExpr tt m) x ts of
              None \<Rightarrow> None
            | Some (x1, ts1) \<Rightarrow> binaryLoop tt m isChaining priority x1 prevNode ts1)
         else if op = IS then None
         else
           (let isComp = IsComparison tt op
            in case parseBinaryExpr tt m (isChaining \<or> isComp) (oprec + 1) ts of
                 None \<Rightarrow> None
               | Some (y, ts1) \<Rightarrow>
                   (let ly = y;
                        y1 = (case prevNode of Some pn \<Rightarrow> Binary pn op y | None \<Rightarrow> y);
                        op1 = (case prevNode of Some pn \<Rightarrow> LAND | None \<Rightarrow> op);
                        x1 = Binary x op1 y1;
                        prevNode1 = (if isComp \<and> IsComparison tt (cTok ts1) then Some ly else None)
                    in binaryLoop tt m isChaining priority x1 prevNode1 ts1)))"
  using assms by (simp add: binaryLoop.simps Let_def)

lemmas parse_fuel =
  parseBinaryExpr_fuel [OF numeral_fuel] parseBinaryExpr_fuel [OF refl]
  binaryLoop_fuel [OF numeral_fuel] binaryLoop_fuel [OF refl]

lemmas parse_defs = parseUnaryExpr_def parseOperand_def parseTypeCaseExpr_def parseTernaryExpr_def
  parseFallbackExpr_def cTok_def cLit_def nTok_def p_next_def exampleTable_def

lemma binaryLoop_chain:
  assumes cmp1: "IsComparison tt op1" and cmp2: "IsComparison tt op2"
      and nsp1: "op1 \<noteq> QES \<and> op1 \<noteq> DQS \<and> op1 \<noteq> IS"
      and nsp2: "op2 \<noteq> QES \<and> op2 \<noteq> DQS \<and> op2 \<noteq> IS"
      and pr1: "priority \<le> Precedence tt op1" and pr2: "priority \<le> Precedence tt op2"
      and stop: "Precedence tt (cTok ts3) < priority"
      and pb: "parseBinaryExpr tt (Suc (Suc k)) True (Precedence tt op1 + 1) ((op1, l1) # ts1)
                 = Some (b, (op2, l2) # ts2)"
      and pc: "parseBinaryExpr tt (Suc k) True (Precedence tt op2 + 1) ((op2, l2) # ts2) = Some (c, ts3)"
  shows "binaryLoop tt (Suc (Suc (Suc k))) False priority a None ((op1, l1) # ts1)
           = Some (Binary (Binary a op1 b) LAND (Binary b op2 c), ts3)"
proof -
  have ct: "cTok ((op, l) # ts) = op" for op l and ts :: tokens
    by (simp add: cTok_def)
  have last: "binaryLoop tt (Suc k) False priority x pn ts3 = Some (x, ts3)" for x pn
    using stop by (simp add: binaryLoop.simps Let_def)
  have second: "binaryLoop tt (Suc (Suc k)) False priority x (Some b) ((op2, l2) # ts2)
                  = Some (Binary x LAND (Binary b op2 c), ts3)" for x
    using cmp2 nsp2 pr2 pc
    by (simp add: binaryLoop_fuel [of "Suc (Suc k)" "Suc k"] Let_def ct last)
  show ?thesis
    using cmp1 cmp2 nsp1 pr1 pb
    by (simp add: binaryLoop_fuel [of "Suc (Suc (Suc k))" "Suc (Suc k)"] Let_def ct second)
qed

lemma chain_evaluation_order:
  assumes "Evaluate rt a xc = (Ok va, x1)" and "Evaluate rt b x1 = (Ok vb, x2)"
      and "binaryOp rt op1 va vb x2 = (Ok r1, x3)"
      and "Evaluate rt b x3 = (Ok vb', x4)" and "Evaluate rt c x4 = (Ok vc, x5)"
      and "binaryOp rt op2 vb' vc x5 = (Ok r2, x6)"
  shows "Evaluate rt (Binary (Binary a op1 b) LAND (Binary b op2 c)) xc
           = binaryOp rt LAND r1 r2 x6"
  using assms by simp

text \<open>
  Counterexample to claim C1 as stated. The parser builds, for \<^verbatim>\<open>2 < x < 3\<close>, the node
  \<open>(2 < x) && (x < 3)\<close> in which the node of the middle operand occurs twice; and the
  evaluation of a node of this shape evaluates the middle operand twice. With the
  increment \<^verbatim>\<open>x++\<close> as the middle operand and \<^verbatim>\<open>x = 5\<close>, the evaluation leaves \<^verbatim>\<open>x = 7\<close>:
  the side effect of the middle operand has happened twice (the first comparison sees 6,
  the second 7).
\<close>

theorem C1_middle_operand_evaluated_twice:
  "parseBinaryExpr exampleTable 5 False 1 chainTokensX =
     Some (Binary (Binary (BasicLit INTEGER ''2'') LSS (Ident ''x'')) LAND
                  (Binary (Ident ''x'') LSS (BasicLit INTEGER ''3'')) :: rat node,
           [(LF, [])])
   \<and> Evaluate exampleRuntime
        (Binary (Binary (BasicLit INTEGER ''2'') LSS (IncDec INC (Ident ''x''))) LAND
                (Binary (IncDec INC (Ident ''x'')) LSS (BasicLit INTEGER ''3''))) xcX5
     = (Ok (VBool False),
        xcX5\<lparr>scope := [\<lparr>hasChild = False, returnResult = None, vars = [''x'' \<mapsto> VInt 7]\<rparr>]\<rparr>)"
proof -
  have p: "parseBinaryExpr exampleTable 5 False 1 chainTokensX =
     Some (Binary (Binary (BasicLit INTEGER ''2'') LSS (Ident ''x'')) LAND
                  (Binary (Ident ''x'') LSS (BasicLit INTEGER ''3'')) :: rat node,
           [(LF, [])])"
    by (simp add: chainTokensX_def parse_fuel parse_defs Let_def)
  have e: "Evaluate exampleRuntime
        (Binary (Binary (BasicLit INTEGER ''2'') LSS (IncDec INC (Ident ''x''))) LAND
                (Binary (IncDec INC (Ident ''x'')) LSS (BasicLit INTEGER ''3''))) xcX5
     = (Ok (VBool False),
        xcX5\<lparr>scope := [\<lparr>hasChild = False, returnResult = None, vars = [''x'' \<mapsto> VInt 7]\<rparr>]\<rparr>)"
    by (simp add: op_defs strconv_defs ctx_defs xcX5_def exampleRuntime_def)
  from p e show ?thesis by blast
qed

text \<open>
  Claim C1, amended. In \<^verbatim>\<open>parseBinaryExpr\<close> outside a chain, when the loop has the left
  operand \<open>a\<close> and is at a comparison operator \<open>op1\<close>, the operand parsed after it is
  \<open>b\<close>, followed by a comparison operator \<open>op2\<close>, and the operand parsed after that is
  \<open>c\<close>, followed by a token of lower precedence, the parser returns the logical AND of the
  two comparisons, \<open>(a op1 b) && (b op2 c)\<close>, with the node \<open>b\<close> in both; so it does when
  \<open>a\<close> is the first operand of the expression. Evaluating that node is evaluating the
  explicit \<open>(a op1 b) && (b op2 c)\<close>: same result, same context. The operands are evaluated
  in the order \<open>a\<close>, \<open>b\<close>, \<open>b\<close>, \<open>c\<close> (each from the context that the step before it
  left, the first comparison being made between the two evaluations of \<open>b\<close>): the middle
  operand is evaluated once by each comparison, twice in all when the first comparison
  succeeds, and its side effect happens as many times. And \<^verbatim>\<open>2 < 5 < 3\<close> parses and
  evaluates to false.
\<close>

theorem C1_chained_comparison:
  assumes cmp1: "IsComparison tt op1" and cmp2: "IsComparison tt op2"
      and nsp1: "op1 \<noteq> QES \<and> op1 \<noteq> DQS \<and> op1 \<noteq> IS"
      and nsp2: "op2 \<noteq> QES \<and> op2 \<noteq> DQS \<and> op2 \<noteq> IS"
      and pr1: "priority \<le> Precedence tt op1" and pr2: "priority \<le> Precedence tt op2"
      and stop: "Precedence tt (cTok ts3) < priority"
      and pb: "parseBinaryExpr tt (Suc (Suc k)) True (Precedence tt op1 + 1) ((op1, l1) # ts1)
                 = Some (b, (op2, l2) # ts2)"
      and pc: "parseBinaryExpr tt (Suc k) True (Precedence tt op2 + 1) ((op2, l2) # ts2) = Some (c, ts3)"
  shows "binaryLoop tt (Suc (Suc (Suc k))) False priority a None ((op1, l1) # ts1)
           = Some (Binary (Binary a op1 b) LAND (Binary b op2 c), ts3)
       \<and> (\<not> (cTok (p_next tks) = IDENT \<and> (nTok (p_next tks) = LPAREN \<or> nTok (p_next tks) = EXISTS))
            \<and> parseUnaryExpr tt (parseBinaryExpr tt (Suc (Suc (Suc k)))) (p_next tks)
                = Some (a, (op1, l1) # ts1) \<longrightarrow>
          parseBinaryExpr tt (Suc (Suc (Suc (Suc k)))) False priority tks
            = Some (Binary (Binary a op1 b) LAND (Binary b op2 c), ts3))
       \<and> Evaluate rt (Binary (Binary a op1 b) LAND (Binary b op2 c)) xc
           = Evaluate rt (Binary (Paren (Binary a op1 b)) LAND (Paren (Binary b op2 c))) xc
       \<and> (Evaluate rt a xc = (Ok va, xa) \<and> Evaluate rt b xa = (Ok vb, xb)
            \<and> binaryOp rt op1 va vb xb = (Ok ra, xp)
            \<and> Evaluate rt b xp = (Ok vb', xd) \<and> Evaluate rt c xd = (Ok vc, xe)
            \<and> binaryOp rt op2 vb' vc xe = (Ok rb, xq) \<longrightarrow>
          Evaluate rt (Binary (Binary a op1 b) LAND (Binary b op2 c)) xc
            = binaryOp rt LAND ra rb xq)
       \<and> (\<not> flt rt (ofInt64 rt 5) (ofInt64 rt 3) \<longrightarrow>
          (case parseBinaryExpr exampleTable 5 False 1 chainTokens of
             Some (nd, ts) \<Rightarrow> Evaluate rt nd xc = (Ok (VBool False), xc)
           | None \<Rightarrow> False))"
proof -
  note loop = binaryLoop_chain [OF cmp1 cmp2 nsp1 nsp2 pr1 pr2 stop pb pc, of a]
  have first: "\<not> (cTok (p_next tks) = IDENT \<and> (nTok (p_next tks) = LPAREN \<or> nTok (p_next tks) = EXISTS))
            \<and> parseUnaryExpr tt (parseBinaryExpr tt (Suc (Suc (Suc k)))) (p_next tks)
                = Some (a, (op1, l1) # ts1) \<longrightarrow>
          parseBinaryExpr tt (Suc (Suc (Suc (Suc k)))) False priority tks
            = Some (Binary (Binary a op1 b) LAND (Binary b op2 c), ts3)"
    using loop by (auto simp add: parseBinaryExpr.simps Let_def)
  have same: "Evaluate rt (Binary (Binary a op1 b) LAND (Binary b op2 c)) xc
           = Evaluate rt (Binary (Paren (Binary a op1 b)) LAND (Paren (Binary b op2 c))) xc"
    by (simp split: prod.splits res.splits)
  have order: "Evaluate rt a xc = (Ok va, xa) \<and> Evaluate rt b xa = (Ok vb, xb)
            \<and> binaryOp rt op1 va vb xb = (Ok ra, xp)
            \<and> Evaluate rt b xp = (Ok vb', xd) \<and> Evaluate rt c xd = (Ok vc, xe)
            \<and> binaryOp rt op2 vb' vc xe = (Ok rb, xq) \<longrightarrow>
          Evaluate rt (Binary (Binary a op1 b) LAND (Binary b op2 c)) xc
            = binaryOp rt LAND ra rb xq"
    using chain_evaluation_order [of rt a xc va xa b vb xb op1 ra xp vb' xd c vc xe op2 rb xq]
    by blast
  have p: "parseBinaryExpr exampleTable 5 False 1 chainTokens =
     Some (Binary (Binary (BasicLit INTEGER ''2'') LSS (BasicLit INTEGER ''5'')) LAND
                  (Binary (BasicLit INTEGER ''5'') LSS (BasicLit INTEGER ''3'')), [(LF, [])])"
    by (simp add: chainTokens_def parse_fuel parse_defs Let_def)
  have ex: "\<not> flt rt (ofInt64 rt 5) (ofInt64 rt 3) \<longrightarrow>
          (case parseBinaryExpr exampleTable 5 False 1 chainTokens of
             Some (nd, ts) \<Rightarrow> Evaluate rt nd xc = (Ok (VBool False), xc)
           | None \<Rightarrow> False)"
    by (subst p) (simp add: op_defs strconv_defs)
  from loop first same order ex show ?thesis
    by blast
qed

text \<open>
  Witness of C1: the tokens of \<^verbatim>\<open>= 2 < 5 < 3\<close> with the example token table, read by
  \<^verbatim>\<open>parseBinaryExpr\<close> from the token before the expression, and the evaluation of the
  node with the example runtime.
\<close>

theorem C1_chained_comparison_witness:
  "parseBinaryExpr exampleTable (Suc (Suc (Suc (Suc 1)))) False 1 chainTokens =
     Some (Binary (Binary (BasicLit INTEGER ''2'') LSS (BasicLit INTEGER ''5'')) LAND
                  (Binary (BasicLit INTEGER ''5'') LSS (BasicLit INTEGER ''3'')) :: rat node,
           [(LF, [])])
   \<and> Evaluate exampleRuntime
        (Binary (Binary (BasicLit INTEGER ''2'') LSS (BasicLit INTEGER ''5'')) LAND
                (Binary (BasicLit INTEGER ''5'') LSS (BasicLit INTEGER ''3''))) xcX5
       = (Ok (VBool False), xcX5)"
proof -
  let ?ts1 = "[(INTEGER, ''5''), (LSS, ''<''), (INTEGER, ''3''), (LF, [])] :: tokens"
  let ?ts2 = "[(INTEGER, ''3''), (LF, [])] :: tokens"
  let ?a = "BasicLit INTEGER ''2'' :: rat node"
  let ?b = "BasicLit INTEGER ''5'' :: rat node"
  let ?c = "BasicLit INTEGER ''3'' :: rat node"
  have cmp: "IsComparison exampleTable LSS"
    by (simp add: exampleTable_def)
  have nsp: "LSS \<noteq> QES \<and> LSS \<noteq> DQS \<and> LSS \<noteq> IS"
    by simp
  have pr: "1 \<le> Precedence exampleTable LSS"
    by (simp add: exampleTable_def)
  have stop: "Precedence exampleTable (cTok [(LF, [])]) < 1"
    by (simp add: exampleTable_def cTok_def)
  have pb: "parseBinaryExpr exampleTable (Suc (Suc 1)) True (Precedence exampleTable LSS + 1)
              ((LSS, ''<'') # ?ts1) = Some (?b, (LSS, ''<'') # ?ts2)"
    by (simp add: parse_fuel parse_defs Let_def)
  have pc: "parseBinaryExpr exampleTable (Suc 1) True (Precedence exampleTable LSS + 1)
              ((LSS, ''<'') # ?ts2) = Some (?c, [(LF, [])])"
    by (simp add: parse_fuel parse_defs Let_def)
  have ua: "\<not> (cTok (p_next chainTokens) = IDENT
               \<and> (nTok (p_next chainTokens) = LPAREN \<or> nTok (p_next chainTokens) = EXISTS))
            \<and> parseUnaryExpr exampleTable (parseBinaryExpr exampleTable (Suc (Suc (Suc 1))))
                (p_next chainTokens) = Some (?a, (LSS, ''<'') # ?ts1)"
    by (simp add: chainTokens_def parse_defs)
  have ev: "Evaluate exampleRuntime ?a xcX5 = (Ok (VInt 2), xcX5)
            \<and> Evaluate exampleRuntime ?b xcX5 = (Ok (VInt 5), xcX5)
            \<and> binaryOp exampleRuntime LSS (VInt 2) (VInt 5) xcX5 = (Ok (VBool True), xcX5)
            \<and> Evaluate exampleRuntime ?b xcX5 = (Ok (VInt 5), xcX5)
            \<and> Evaluate exampleRuntime ?c xcX5 = (Ok (VInt 3), xcX5)
            \<and> binaryOp exampleRuntime LSS (VInt 5) (VInt 3) xcX5 = (Ok (VBool False), xcX5)"
    by (simp add: op_defs strconv_defs exampleRuntime_def)
  have land: "binaryOp exampleRuntime LAND (VBool True) (VBool False) xcX5
                = (Ok (VBool False), xcX5)"
    by (simp add: binaryOp_def)
  note w = C1_chained_comparison [OF cmp cmp nsp nsp pr pr stop pb pc,
      where a = ?a and tks = chainTokens and rt = exampleRuntime and xc = xcX5
        and va = "VInt 2" and xa = xcX5 and vb = "VInt 5" and xb = xcX5 and ra = "VBool True"
        and xp = xcX5 and vb' = "VInt 5" and xd = xcX5 and vc = "VInt 3" and xe = xcX5
        and rb = "VBool False" and xq = xcX5]
  from w ua have p: "parseBinaryExpr exampleTable (Suc (Suc (Suc (Suc 1)))) False 1 chainTokens =
     Some (Binary (Binary ?a LSS ?b) LAND (Binary ?b LSS ?c), [(LF, [])])"
    by blast
  from w ev have e: "Evaluate exampleRuntime (Binary (Binary ?a LSS ?b) LAND (Binary ?b LSS ?c)) xcX5
       = binaryOp exampleRuntime LAND (VBool True) (VBool False) xcX5"
    by blast
  from p e land show ?thesis
    by (simp del: Evaluate.simps)
qed

end
